theory Spec2Isabelle
  imports Complex_Main
begin

section \<open>The caption bridge of \<^verbatim>\<open>app_v3_mvp.py\<close>\<close>

text \<open>
  The script reads messages from a websocket, decodes each as JSON and reconciles the
  phrase events into console lines.  This theory embeds the message loop of
  \<^verbatim>\<open>listen_to_wordly\<close> (lines 85-208): one loop iteration is \<open>process_message\<close>,
  the loop is \<open>message_loop\<close>.  What the loop prints and logs is returned as a list, in
  program order; the local variables the loop mutates are a record passed through.
\<close>

subsection \<open>Decoded JSON values\<close>

text \<open>
  What \<^verbatim>\<open>json.loads\<close> returns: \<^verbatim>\<open>None\<close>, a bool, an int, a float, a str, a list
  or a dict with string keys.  A float is the rational number it stands for (the value
  of the double, \<^verbatim>\<open>-0.0\<close> being zero), an infinity, or the NaN that \<^verbatim>\<open>json.loads\<close>
  returns for the literal \<^verbatim>\<open>NaN\<close>; the operations of the loop on a float (truth value,
  comparison, hashing) depend on nothing else.  A str is a list of characters; the code
  only inspects the ASCII characters \<^verbatim>\<open>>\<close>, \<^verbatim>\<open>:\<close> and the space, so reading a
  character as a byte of the UTF-8 encoding gives the same prefixes.
\<close>

datatype pyfloat = Finite rat | PosInf | NegInf | NaN

datatype pyval =
    PNone
  | PBool bool
  | PInt int
  | PFloat pyfloat
  | PStr string
  | PList "pyval list"
  | PDict "string \<Rightarrow> pyval option"

text \<open>\<^verbatim>\<open>d.get(k, default)\<close> on a dict.\<close>

definition dict_get :: "(string \<Rightarrow> pyval option) \<Rightarrow> string \<Rightarrow> pyval \<Rightarrow> pyval" where
  "dict_get d k dflt = (case d k of None \<Rightarrow> dflt | Some v \<Rightarrow> v)"

text \<open>Python's truth value of an object (\<^verbatim>\<open>if x:\<close>).\<close>

fun truthy :: "pyval \<Rightarrow> bool" where
  "truthy PNone = False"
| "truthy (PBool b) = b"
| "truthy (PInt n) = (n \<noteq> 0)"
| "truthy (PFloat f) = (f \<noteq> Finite 0)"
| "truthy (PStr s) = (s \<noteq> [])"
| "truthy (PList xs) = (xs \<noteq> [])"
| "truthy (PDict m) = (m \<noteq> Map.empty)"

text \<open>
  Comparison.  Numbers compare by value whatever their type: \<^verbatim>\<open>bool\<close> is a subclass
  of \<^verbatim>\<open>int\<close>, so \<^verbatim>\<open>True == 1\<close>, and \<^verbatim>\<open>1.0 == 1\<close>.  Lists are equal when their
  elements are, dicts when they have the same keys with equal values; values of
  different types are never equal otherwise.  \<open>canon\<close> replaces every bool and int by
  the float of its value.

  NaN is the exception: \<^verbatim>\<open>nan == nan\<close> is false and \<^verbatim>\<open>nan != nan\<close> is true.
  \<^verbatim>\<open>json.loads\<close> returns one and the same object for every \<^verbatim>\<open>NaN\<close> it reads, and
  the comparison of two elements inside a list or dict comparison, like the membership
  test of a set, takes an object for equal to itself.  So there are two relations:
  \<open>py_same a b\<close>, "\<open>a\<close> is \<open>b\<close> or \<open>a == b\<close>", which is equality of the canonical
  values, and \<open>py_eq a b\<close>, the operator \<^verbatim>\<open>==\<close> itself, which differs from it on NaN
  alone.  \<^verbatim>\<open>!=\<close> is the negation of \<^verbatim>\<open>==\<close> for all these types.
\<close>

primrec canon :: "pyval \<Rightarrow> pyval" where
  "canon PNone = PNone"
| "canon (PBool b) = PFloat (Finite (if b then 1 else 0))"
| "canon (PInt n) = PFloat (Finite (of_int n))"
| "canon (PFloat f) = PFloat f"
| "canon (PStr s) = PStr s"
| "canon (PList xs) = PList (map canon xs)"
| "canon (PDict m) = PDict (map_option canon \<circ> m)"

definition py_same :: "pyval \<Rightarrow> pyval \<Rightarrow> bool" where
  "py_same a b = (canon a = canon b)"

definition py_eq :: "pyval \<Rightarrow> pyval \<Rightarrow> bool" where
  "py_eq a b = (py_same a b \<and> a \<noteq> PFloat NaN)"

text \<open>
  \<^verbatim>\<open>hash(x)\<close> raises \<^verbatim>\<open>TypeError\<close> for a list and for a dict; a set can hold
  the other values.
\<close>

fun hashable :: "pyval \<Rightarrow> bool" where
  "hashable (PList xs) = False"
| "hashable (PDict m) = False"
| "hashable v = True"

text \<open>
  A Python set of hashable values: \<^verbatim>\<open>x in s\<close> looks for an element that is \<open>x\<close> or
  is equal to \<open>x\<close> (equal values have equal hashes), so it finds NaN in a set that
  holds it; \<^verbatim>\<open>s.add(x)\<close> leaves the set as it is when it has such an element.
\<close>

definition py_in :: "pyval \<Rightarrow> pyval set \<Rightarrow> bool" where
  "py_in x S = (\<exists>y\<in>S. py_same x y)"

definition set_add :: "pyval \<Rightarrow> pyval set \<Rightarrow> pyval set" where
  "set_add x S = (if py_in x S then S else insert x S)"

subsection \<open>The prefix pattern\<close>

text \<open>
  Lines 170 and 181 evaluate \<^verbatim>\<open>re.sub(r"^(>> )?([^:]+: )?", "", current_phrase_text)\<close>.
  The pattern is anchored at the start of the string and both groups are optional and
  greedy, so it matches exactly once, at position 0: the marker \<^verbatim>\<open>">> "\<close> when the
  string starts with it, then, when one or more characters other than a colon are
  followed by a colon and a space, these characters with the colon and the space.  (The
  class \<^verbatim>\<open>[^:]\<close> also matches a newline; a shorter run than the longest one is followed
  by a character that is not a colon, so backtracking finds no other match.)
\<close>

definition name_part_len :: "string \<Rightarrow> nat" where
  "name_part_len s =
     (let run = takeWhile (\<lambda>c. c \<noteq> CHR '':'') s;
          rest = dropWhile (\<lambda>c. c \<noteq> CHR '':'') s
      in if run \<noteq> [] \<and> take 2 rest = '': '' then length run + 2 else 0)"

definition prefix_match_len :: "string \<Rightarrow> nat" where
  "prefix_match_len s =
     (if take 3 s = ''>> '' then 3 + name_part_len (drop 3 s) else name_part_len s)"

definition re_sub_prefix :: "string \<Rightarrow> string" where
  "re_sub_prefix s = drop (prefix_match_len s) s"

text \<open>Lines 170-171 and 181-182: the prefix recovered from the displayed text.\<close>

definition existing_prefix :: "string \<Rightarrow> string" where
  "existing_prefix current_text =
     (let existing_prefix_len = length current_text - length (re_sub_prefix current_text)
      in take existing_prefix_len current_text)"

subsection \<open>Configuration, state and output\<close>

text \<open>
  The module's flags (lines 19-24) and the \<^verbatim>\<open>target_lang\<close> argument.  \<open>str_of\<close>
  stands for Python's \<^verbatim>\<open>str()\<close> of a value that is not a str, which the f-string of
  line 152 applies to the speaker name; it is a parameter of the model.
\<close>

record config =
  target_lang :: string
  SHOW_SPEAKER_NAMES :: bool
  SHOW_SPEAKER_CHANGES :: bool
  LOG_RAW_PACKETS :: bool
  str_of :: "pyval \<Rightarrow> string"

definition ATTRIBUTION_LINE :: string where
  "ATTRIBUTION_LINE = ''<Captioning by Wordly.ai>''"

text \<open>The flags as the file sets them.\<close>

definition source_config :: "string \<Rightarrow> (pyval \<Rightarrow> string) \<Rightarrow> config" where
  "source_config lang f =
     \<lparr>target_lang = lang, SHOW_SPEAKER_NAMES = False, SHOW_SPEAKER_CHANGES = True,
      LOG_RAW_PACKETS = True, str_of = f\<rparr>"

text \<open>The variables of lines 66-72 and 85; \<open>PNone\<close> in \<open>current_phrase_id\<close> is no open phrase.\<close>

record state =
  current_phrase_id :: pyval
  current_phrase_text :: string
  finalized_phrases :: "pyval set"
  last_speaker_id :: pyval
  last_speaker_tag :: pyval
  connection_successful :: bool

definition initial_state :: state where
  "initial_state =
     \<lparr>current_phrase_id = PNone, current_phrase_text = [], finalized_phrases = {},
      last_speaker_id = PNone, last_speaker_tag = PNone, connection_successful = False\<rparr>"

datatype loglevel = DEBUG | INFO | WARNING | ERROR

text \<open>
  What an iteration writes, one constructor for each form of \<^verbatim>\<open>print\<close> in the loop.
  \<open>Banner l\<close> is \<^verbatim>\<open>print(l)\<close> of line 105.  \<open>Update p t\<close> is
  \<^verbatim>\<open>print(f"\r{t}", end="")\<close> of lines 163 and 175: a carriage return and the text, the
  line left open.  \<open>Commit p t\<close> is \<^verbatim>\<open>print(f"\r{t}")\<close> of line 187: a carriage
  return, the text and a newline.  \<open>Println p t\<close> is \<^verbatim>\<open>print(t)\<close> of line 141, the
  print of the rollover: the text and a newline, with no carriage return before them.
  The first argument of these three is the phrase identifier the text belongs to
  (\<^verbatim>\<open>current_phrase_id\<close> at line 141, \<^verbatim>\<open>phrase_id\<close> elsewhere); the console does not
  show it.  \<open>Log l\<close> is a record of the \<^verbatim>\<open>logging\<close> module at level \<open>l\<close>, its
  text left out; it goes to the standard error stream.
\<close>

datatype out =
    Banner string
  | Update pyval string
  | Commit pyval string
  | Println pyval string
  | Log loglevel

text \<open>The characters an output sends to the standard output, and those of a list of outputs.\<close>

definition CR :: char where
  "CR = CHR 0x0D"

definition LF :: char where
  "LF = CHR 0x0A"

fun written :: "out \<Rightarrow> string" where
  "written (Banner l) = l @ [LF]"
| "written (Update p t) = CR # t"
| "written (Commit p t) = CR # t @ [LF]"
| "written (Println p t) = t @ [LF]"
| "written (Log l) = []"

definition stdout :: "out list \<Rightarrow> string" where
  "stdout outs = concat (map written outs)"

text \<open>
  Line 28 sets the level to \<^verbatim>\<open>DEBUG\<close> when \<^verbatim>\<open>LOG_RAW_PACKETS\<close> is set and to
  \<^verbatim>\<open>INFO\<close> otherwise, and then a \<^verbatim>\<open>logging.debug\<close> call writes nothing.
\<close>

definition logging :: "config \<Rightarrow> loglevel \<Rightarrow> out list" where
  "logging cfg l = (if l = DEBUG \<and> \<not> LOG_RAW_PACKETS cfg then [] else [Log l])"

datatype py_exception = AttributeError | TypeError

text \<open>
  \<^verbatim>\<open>prefix + text\<close> with a str on the left: the right operand as a str, or
  \<^verbatim>\<open>TypeError\<close> (here \<open>None\<close>) for any other value.
\<close>

fun as_str :: "pyval \<Rightarrow> string option" where
  "as_str (PStr t) = Some t"
| "as_str v = None"

datatype control = Continue | Break

subsection \<open>A phrase message\<close>

text \<open>The local variables of lines 125-131; \<open>text'\<close> is the variable \<^verbatim>\<open>text\<close>.\<close>

record phrase_event =
  phrase_id :: pyval
  text' :: pyval
  is_final :: pyval
  speaker_id :: pyval
  speaker_tag :: pyval
  speaker_name :: pyval

definition read_phrase :: "(string \<Rightarrow> pyval option) \<Rightarrow> phrase_event" where
  "read_phrase d =
     \<lparr>phrase_id = dict_get d ''phraseld'' PNone,
      text' = dict_get d ''translatedText'' (PStr []),
      is_final = dict_get d ''isFinal'' (PBool False),
      speaker_id = dict_get d ''speakerld'' PNone,
      speaker_tag = dict_get d ''speakerTag'' PNone,
      speaker_name = dict_get d ''name'' PNone\<rparr>"

text \<open>Lines 146-152: the prefix of a phrase that opens.\<close>

definition speaker_changed :: "phrase_event \<Rightarrow> state \<Rightarrow> bool" where
  "speaker_changed e s =
     (\<not> py_eq (speaker_id e) (last_speaker_id s) \<or> \<not> py_eq (speaker_tag e) (last_speaker_tag s))"

definition fstring :: "config \<Rightarrow> pyval \<Rightarrow> string" where
  "fstring cfg v = (case v of PStr n \<Rightarrow> n | _ \<Rightarrow> str_of cfg v)"

definition change_prefix :: "config \<Rightarrow> pyval \<Rightarrow> string" where
  "change_prefix cfg name =
     (if SHOW_SPEAKER_CHANGES cfg then ''>> '' else [])
     @ (if SHOW_SPEAKER_NAMES cfg \<and> truthy name then fstring cfg name @ '': '' else [])"

definition open_prefix :: "config \<Rightarrow> phrase_event \<Rightarrow> state \<Rightarrow> string" where
  "open_prefix cfg e s =
     (if speaker_changed e s then change_prefix cfg (speaker_name e) else [])"

text \<open>
  The three parts of the phrase handler return the exception that ended them, if any,
  what they wrote, and the variables as they are at that point: an exception keeps the
  assignments made before it.

  Lines 138-164, a new phrase: the text of the open phrase, if any, is printed with a
  newline (and without a carriage return) and the phrase is finalized; the speaker
  memory and \<^verbatim>\<open>current_phrase_id\<close> are assigned; then the text is built and printed.
\<close>

definition new_phrase ::
  "config \<Rightarrow> phrase_event \<Rightarrow> state \<Rightarrow> py_exception option \<times> out list \<times> state" where
  "new_phrase cfg e s =
     (let flushed = (if current_phrase_id s \<noteq> PNone
                     then [Println (current_phrase_id s) (current_phrase_text s)] else []);
          s1 = (if current_phrase_id s \<noteq> PNone
                then s\<lparr>finalized_phrases := set_add (current_phrase_id s) (finalized_phrases s)\<rparr>
                else s);
          prefix = open_prefix cfg e s1;
          s2 = s1\<lparr>last_speaker_id := speaker_id e, last_speaker_tag := speaker_tag e,
                  current_phrase_id := phrase_id e\<rparr>
      in case as_str (text' e) of
           Some t \<Rightarrow>
             (None, flushed @ [Update (phrase_id e) (prefix @ t)],
              s2\<lparr>current_phrase_text := prefix @ t\<rparr>)
         | None \<Rightarrow> (Some TypeError, flushed, s2))"

text \<open>Lines 167-176, an update of the open phrase.\<close>

definition update_phrase ::
  "phrase_event \<Rightarrow> state \<Rightarrow> py_exception option \<times> out list \<times> state" where
  "update_phrase e s =
     (case as_str (text' e) of
        Some t \<Rightarrow>
          (None, [Update (phrase_id e) (existing_prefix (current_phrase_text s) @ t)],
           s\<lparr>current_phrase_text := existing_prefix (current_phrase_text s) @ t\<rparr>)
      | None \<Rightarrow> (Some TypeError, [], s))"

text \<open>Lines 179-195, the final flag: print with a newline, finalize, reset the buffer.\<close>

definition final_phrase ::
  "phrase_event \<Rightarrow> state \<Rightarrow> py_exception option \<times> out list \<times> state" where
  "final_phrase e s =
     (case as_str (text' e) of
        Some t \<Rightarrow>
          (None, [Commit (phrase_id e) (existing_prefix (current_phrase_text s) @ t)],
           s\<lparr>finalized_phrases := set_add (phrase_id e) (finalized_phrases s),
             current_phrase_id := PNone, current_phrase_text := []\<rparr>)
      | None \<Rightarrow> (Some TypeError, [], s))"

text \<open>
  Lines 133-195.  The membership test of line 134 hashes \<open>phrase_id\<close> and finds it by
  identity or equality; the test of line 138 is the operator \<^verbatim>\<open>!=\<close>.  The \<^verbatim>\<open>elif\<close> of
  line 167 is the negation of the test of line 138.
\<close>

definition handle_phrase ::
  "config \<Rightarrow> phrase_event \<Rightarrow> state \<Rightarrow> py_exception option \<times> out list \<times> state" where
  "handle_phrase cfg e s =
     (if \<not> hashable (phrase_id e) then (Some TypeError, [], s)
      else if py_in (phrase_id e) (finalized_phrases s) then (None, [], s)
      else
        (case (if \<not> py_eq (phrase_id e) (current_phrase_id s)
               then new_phrase cfg e s else update_phrase e s) of
           (Some x, o1, s1) \<Rightarrow> (Some x, o1, s1)
         | (None, o1, s1) \<Rightarrow>
             if truthy (is_final e)
             then (case final_phrase e s1 of (x, o2, s2) \<Rightarrow> (x, o1 @ o2, s2))
             else (None, o1, s1)))"

subsection \<open>One iteration and the loop\<close>

text \<open>
  What \<^verbatim>\<open>json.loads\<close> makes of a message: it raises \<^verbatim>\<open>JSONDecodeError\<close>
  (\<open>Undecodable\<close>, line 205 logs a warning), it raises another exception, as for a binary
  frame that is not UTF-8 (\<open>Unreadable\<close>, caught at line 207), or it returns a value.
  \<^verbatim>\<open>data.get\<close> raises \<^verbatim>\<open>AttributeError\<close> when the value is not a dict.  Any exception
  caught at line 207 is logged as an error, and the loop goes on with the variables as
  the exception left them.  A \<^verbatim>\<open>print\<close> is taken to succeed.
\<close>

datatype message = Undecodable | Unreadable | Decoded pyval

text \<open>
  Lines 96-203 for a decoded dict: the exception that ended them, if any, whether the
  iteration ends the loop, what was written, and the variables.  A \<^verbatim>\<open>continue\<close>
  (lines 123 and 135) ends the iteration like its last statement does.
\<close>

definition dispatch ::
  "config \<Rightarrow> (string \<Rightarrow> pyval option) \<Rightarrow> state
     \<Rightarrow> py_exception option \<times> control \<times> out list \<times> state" where
  "dispatch cfg d s =
     (let msg_type = dict_get d ''type'' PNone in
      if msg_type = PStr ''status'' then
        (if truthy (dict_get d ''success'' (PBool False))
         then (None, Continue, logging cfg INFO @ [Banner ATTRIBUTION_LINE],
               s\<lparr>connection_successful := True\<rparr>)
         else (None, Break, logging cfg ERROR, s))
      else if msg_type = PStr ''end'' then (None, Break, logging cfg INFO, s)
      else if msg_type = PStr ''phrase'' \<and> connection_successful s then
        (if dict_get d ''translatedLanguageCode'' PNone \<noteq> PStr (target_lang cfg)
         then (None, Continue, [], s)
         else (case handle_phrase cfg (read_phrase d) s of
                 (x, outs, s') \<Rightarrow> (x, Continue, outs, s')))
      else if msg_type = PStr ''error'' then (None, Continue, logging cfg WARNING, s)
      else if connection_successful s
              \<and> msg_type \<notin> PStr ` {''phrase'', ''status'', ''end'', ''users'', ''speech'', ''echo''}
      then (None, Continue, (if \<not> LOG_RAW_PACKETS cfg then logging cfg DEBUG else []), s)
      else (None, Continue, [], s))"

text \<open>Lines 91-93, the raw packet logger.\<close>

definition raw_log :: "config \<Rightarrow> out list" where
  "raw_log cfg = (if LOG_RAW_PACKETS cfg then logging cfg DEBUG else [])"

text \<open>
  Lines 91-203, the body of the \<^verbatim>\<open>try\<close> after \<^verbatim>\<open>json.loads\<close>: the raw packet logger,
  then \<^verbatim>\<open>data.get("type")\<close>, which raises when \<open>data\<close> is not a dict.
\<close>

definition loop_body ::
  "config \<Rightarrow> pyval \<Rightarrow> state \<Rightarrow> py_exception option \<times> control \<times> out list \<times> state" where
  "loop_body cfg data s =
     (case data of
        PDict d \<Rightarrow>
          (case dispatch cfg d s of (x, c, outs, s') \<Rightarrow> (x, c, raw_log cfg @ outs, s'))
      | _ \<Rightarrow> (Some AttributeError, Continue, raw_log cfg, s))"

text \<open>
  Lines 87-208, one iteration: \<^verbatim>\<open>json.loads\<close>, the body, and the two handlers.  After
  an exception the loop takes the next message.
\<close>

definition process_message ::
  "config \<Rightarrow> message \<Rightarrow> state \<Rightarrow> control \<times> out list \<times> state" where
  "process_message cfg m s =
     (case m of
        Undecodable \<Rightarrow> (Continue, logging cfg WARNING, s)
      | Unreadable \<Rightarrow> (Continue, logging cfg ERROR, s)
      | Decoded data \<Rightarrow>
          (case loop_body cfg data s of
             (None, c, outs, s') \<Rightarrow> (c, outs, s')
           | (Some x, c, outs, s') \<Rightarrow> (Continue, outs @ logging cfg ERROR, s')))"

text \<open>
  The \<^verbatim>\<open>async for\<close> of line 86 over the messages the socket delivers.  The result says
  how the loop ended: \<open>Break\<close> after a \<^verbatim>\<open>break\<close>, \<open>Continue\<close> when the messages ran out.
\<close>

fun message_loop :: "config \<Rightarrow> message list \<Rightarrow> state \<Rightarrow> control \<times> out list \<times> state" where
  "message_loop cfg [] s = (Continue, [], s)"
| "message_loop cfg (m # ms) s =
     (case process_message cfg m s of
        (Break, outs, s') \<Rightarrow> (Break, outs, s')
      | (Continue, outs, s') \<Rightarrow>
          (case message_loop cfg ms s' of (c, outs', s'') \<Rightarrow> (c, outs @ outs', s'')))"

definition outputs :: "config \<Rightarrow> message list \<Rightarrow> state \<Rightarrow> out list" where
  "outputs cfg ms s = fst (snd (message_loop cfg ms s))"

definition state_after :: "config \<Rightarrow> message list \<Rightarrow> state \<Rightarrow> state" where
  "state_after cfg ms s = snd (snd (message_loop cfg ms s))"

subsection \<open>Notions the properties are stated with\<close>

text \<open>
  The render commands are the prints of phrase text: \<open>Update\<close>, \<open>Commit\<close> and
  \<open>Println\<close>.  A command bears the identifier \<open>p\<close> when its identifier is \<open>p\<close> or is
  equal to \<open>p\<close>.  The commits for \<open>p\<close> are the prints bearing \<open>p\<close> that end the line
  of the phrase, by line 187 or by line 141.
\<close>

fun is_render :: "out \<Rightarrow> bool" where
  "is_render (Update q t) = True"
| "is_render (Commit q t) = True"
| "is_render (Println q t) = True"
| "is_render x = False"

definition renders :: "out list \<Rightarrow> out list" where
  "renders outs = filter is_render outs"

fun is_update :: "out \<Rightarrow> bool" where
  "is_update (Update q t) = True"
| "is_update x = False"

fun is_banner :: "out \<Rightarrow> bool" where
  "is_banner (Banner l) = True"
| "is_banner x = False"

fun bears :: "out \<Rightarrow> pyval \<Rightarrow> bool" where
  "bears (Update q t) p = py_same q p"
| "bears (Commit q t) p = py_same q p"
| "bears (Println q t) p = py_same q p"
| "bears x p = False"

fun is_commit_for :: "pyval \<Rightarrow> out \<Rightarrow> bool" where
  "is_commit_for p (Commit q t) = py_same q p"
| "is_commit_for p (Println q t) = py_same q p"
| "is_commit_for p x = False"

definition commits_for :: "pyval \<Rightarrow> out list \<Rightarrow> out list" where
  "commits_for p outs = filter (is_commit_for p) outs"

text \<open>The status message that confirms the session (lines 99-100).\<close>

fun status_success :: "message \<Rightarrow> bool" where
  "status_success (Decoded (PDict d)) =
     (dict_get d ''type'' PNone = PStr ''status'' \<and> truthy (dict_get d ''success'' (PBool False)))"
| "status_success m = False"

text \<open>A message that is not a dict whose \<^verbatim>\<open>phraseld\<close> is NaN.\<close>

fun id_not_nan :: "message \<Rightarrow> bool" where
  "id_not_nan (Decoded (PDict d)) = (dict_get d ''phraseld'' PNone \<noteq> PFloat NaN)"
| "id_not_nan m = True"

text \<open>The buffer invariant: an open phrase is not finalized.\<close>

definition buffer_inv :: "state \<Rightarrow> bool" where
  "buffer_inv s =
     (current_phrase_id s = PNone \<or> \<not> py_in (current_phrase_id s) (finalized_phrases s))"

text \<open>
  What every stretch of the loop keeps, from the variables \<open>s\<close> before it to the
  variables \<open>s'\<close> after it, with \<open>outs\<close> written in between: the invariant holds
  again, the finalized set has only grown, no command bears an identifier that was
  finalized before, an identifier has at most one commit, and a committed identifier is
  finalized.
\<close>

definition step_ok :: "state \<Rightarrow> out list \<Rightarrow> state \<Rightarrow> bool" where
  "step_ok s outs s' =
     (buffer_inv s' \<and> finalized_phrases s \<subseteq> finalized_phrases s'
      \<and> (\<forall>x\<in>set outs. \<forall>p. bears x p \<longrightarrow> \<not> py_in p (finalized_phrases s))
      \<and> (\<forall>p. length (commits_for p outs) \<le> 1)
      \<and> (\<forall>p. commits_for p outs \<noteq> [] \<longrightarrow> py_in p (finalized_phrases s')))"

subsection \<open>Example feeds\<close>

text \<open>
  The configuration of the file for the target language \<^verbatim>\<open>en\<close>; speaker names are
  off in it, so \<open>str_of\<close> is never called.
\<close>

definition en_config :: config where
  "en_config = source_config ''en'' (\<lambda>v. [])"

definition status_msg :: "bool \<Rightarrow> message" where
  "status_msg ok = Decoded (PDict [''type'' \<mapsto> PStr ''status'', ''success'' \<mapsto> PBool ok])"

definition end_msg :: message where
  "end_msg = Decoded (PDict [''type'' \<mapsto> PStr ''end''])"

text \<open>A phrase message in \<^verbatim>\<open>en\<close> with an identifier, a text, the final flag and a speaker.\<close>

definition phrase_dict ::
  "pyval \<Rightarrow> string \<Rightarrow> bool \<Rightarrow> pyval \<Rightarrow> (string \<Rightarrow> pyval option)" where
  "phrase_dict p t fin spk =
     [''type'' \<mapsto> PStr ''phrase'', ''translatedLanguageCode'' \<mapsto> PStr ''en'',
      ''phraseld'' \<mapsto> p, ''translatedText'' \<mapsto> PStr t, ''isFinal'' \<mapsto> PBool fin,
      ''speakerld'' \<mapsto> spk]"

definition phrase_msg :: "pyval \<Rightarrow> string \<Rightarrow> bool \<Rightarrow> pyval \<Rightarrow> message" where
  "phrase_msg p t fin spk = Decoded (PDict (phrase_dict p t fin spk))"

text \<open>The variables after the handshake, before any phrase.\<close>

definition active_state :: state where
  "active_state = initial_state\<lparr>connection_successful := True\<rparr>"

text \<open>Phrase 1 is open when phrase 2 arrives.\<close>

definition feed_rollover :: "message list" where
  "feed_rollover = [status_msg True, phrase_msg (PInt 1) ''partial'' False PNone,
     phrase_msg (PInt 2) ''new'' False PNone]"

text \<open>
  The identifier of the first two phrase messages is NaN; then a phrase with the
  identifier 2 arrives.
\<close>

definition feed_nan_open :: "message list" where
  "feed_nan_open = [status_msg True, phrase_msg (PFloat NaN) ''a'' False PNone,
     phrase_msg (PFloat NaN) ''b'' False PNone]"

definition feed_nan :: "message list" where
  "feed_nan = feed_nan_open @ [phrase_msg (PInt 2) ''c'' False PNone]"

text \<open>Phrase 1 is open with the text \<^verbatim>\<open>partial\<close>; phrase 3 is open with the text \<^verbatim>\<open>x\<close>.\<close>

definition open_partial :: state where
  "open_partial = active_state\<lparr>current_phrase_id := PInt 1, current_phrase_text := ''partial''\<rparr>"

definition open_three :: state where
  "open_three = active_state\<lparr>current_phrase_id := PInt 3, current_phrase_text := ''x''\<rparr>"

text \<open>A phrase with a colon in its text, updated once and then final.\<close>

definition feed_colon :: "message list" where
  "feed_colon = [status_msg True, phrase_msg (PInt 1) ''Note: a'' False PNone,
     phrase_msg (PInt 1) ''Note: ab'' True PNone]"

text \<open>Phrase 3 is open when the presentation ends.\<close>

definition feed_end :: "message list" where
  "feed_end = [status_msg True, phrase_msg (PInt 3) ''x'' False PNone, end_msg]"

text \<open>The session is rejected, and phrases follow in the feed.\<close>

definition feed_rejected :: "message list" where
  "feed_rejected = [phrase_msg (PInt 1) ''early'' False PNone, status_msg False,
     phrase_msg (PInt 2) ''late'' True PNone]"

text \<open>A phrase in another language than \<^verbatim>\<open>en\<close>.\<close>

definition spanish_dict :: "string \<Rightarrow> pyval option" where
  "spanish_dict =
     [''type'' \<mapsto> PStr ''phrase'', ''translatedLanguageCode'' \<mapsto> PStr ''es'',
      ''phraseld'' \<mapsto> PInt 2, ''translatedText'' \<mapsto> PStr ''hola'', ''isFinal'' \<mapsto> PBool True]"

text \<open>Speaker A says phrase 1, then speaker B says phrase 2.\<close>

definition feed_speakers :: "message list" where
  "feed_speakers = [status_msg True, phrase_msg (PInt 1) ''hi'' False (PStr ''A''),
     phrase_msg (PInt 2) ''yo'' False (PStr ''B'')]"

text \<open>The status message arrives twice.\<close>

definition feed_two_status :: "message list" where
  "feed_two_status = [status_msg True, status_msg True]"

text \<open>Phrase messages without the identifier, and without the text.\<close>

definition no_id_dict :: "string \<Rightarrow> pyval option" where
  "no_id_dict =
     [''type'' \<mapsto> PStr ''phrase'', ''translatedLanguageCode'' \<mapsto> PStr ''en'',
      ''translatedText'' \<mapsto> PStr ''hi'']"

definition no_text_dict :: "string \<Rightarrow> pyval option" where
  "no_text_dict =
     [''type'' \<mapsto> PStr ''phrase'', ''translatedLanguageCode'' \<mapsto> PStr ''en'',
      ''phraseld'' \<mapsto> PInt 5]"

text \<open>A phrase message whose identifier is a list.\<close>

definition list_id_dict :: "string \<Rightarrow> pyval option" where
  "list_id_dict =
     [''type'' \<mapsto> PStr ''phrase'', ''translatedLanguageCode'' \<mapsto> PStr ''en'',
      ''phraseld'' \<mapsto> PList [PInt 1], ''translatedText'' \<mapsto> PStr ''hi'']"

section \<open>Properties\<close>

subsection \<open>Equality and sets\<close>

lemma py_same_refl [simp]: "py_same a a"
  by (simp add: py_same_def)

lemma py_eq_examples:
  "py_eq (PBool True) (PInt 1)" "py_eq (PFloat (Finite 1)) (PInt 1)"
  "py_eq (PList [PInt 0]) (PList [PBool False])"
  "\<not> py_eq (PInt 1) (PStr ''1'')" "\<not> py_eq PNone (PInt 0)" "\<not> py_eq (PInt 1) (PInt 2)"
  "\<not> py_eq (PFloat NaN) (PFloat NaN)" "py_same (PFloat NaN) (PFloat NaN)"
  "py_eq (PList [PFloat NaN]) (PList [PFloat NaN])" "py_in (PFloat NaN) {PFloat NaN}"
  by (simp_all add: py_eq_def py_same_def py_in_def)

text \<open>The operator \<^verbatim>\<open>==\<close> is "identical or equal" except on NaN.\<close>

lemma py_eq_same: "a \<noteq> PFloat NaN \<Longrightarrow> py_eq a b = py_same a b"
  by (simp add: py_eq_def)

lemma py_eq_PNone [simp]: "py_eq p PNone = (p = PNone)"
  by (cases p) (auto simp: py_eq_def py_same_def)

lemma py_eq_PNone_left [simp]: "py_eq PNone p = (p = PNone)"
  by (cases p) (auto simp: py_eq_def py_same_def)

lemma py_same_PNone [simp]: "py_same p PNone = (p = PNone)" "py_same PNone p = (p = PNone)"
  by (cases p; auto simp: py_same_def)+

lemma py_eq_imp_same: "py_eq a b \<Longrightarrow> py_same a b"
  by (simp add: py_eq_def)

lemma py_in_canon: "py_in p S = (canon p \<in> canon ` S)"
  by (auto simp: py_in_def py_same_def)

lemma py_in_mono: "S \<subseteq> T \<Longrightarrow> py_in p S \<Longrightarrow> py_in p T"
  by (auto simp: py_in_def)

lemma py_in_self: "p \<in> S \<Longrightarrow> py_in p S"
  unfolding py_in_def using py_same_refl by blast

lemma canon_set_add: "canon ` set_add x S = insert (canon x) (canon ` S)"
  by (auto simp: set_add_def py_in_def py_same_def)

lemma py_in_set_add: "py_in p (set_add x S) = (py_same p x \<or> py_in p S)"
  by (auto simp: py_in_canon canon_set_add py_same_def)

lemma set_add_mono: "S \<subseteq> set_add x S"
  by (auto simp: set_add_def)

lemma set_add_cases: "y \<in> set_add x S \<Longrightarrow> y = x \<or> y \<in> S"
  by (auto simp: set_add_def split: if_splits)

subsection \<open>The invariant through one phrase message\<close>

lemma step_ok_refl: "buffer_inv s \<Longrightarrow> step_ok s [] s"
  by (simp add: step_ok_def commits_for_def)

lemma commits_for_append: "commits_for p (xs @ ys) = commits_for p xs @ commits_for p ys"
  by (simp add: commits_for_def)

lemma is_commit_for_bears: "is_commit_for p x \<Longrightarrow> bears x p"
  by (cases x) simp_all

lemma commits_for_bears: "commits_for p xs \<noteq> [] \<Longrightarrow> \<exists>x\<in>set xs. bears x p"
  by (auto simp: commits_for_def filter_empty_conv intro: is_commit_for_bears)

lemma step_ok_trans:
  assumes a: "step_ok s o1 s1" and b: "step_ok s1 o2 s2"
  shows "step_ok s (o1 @ o2) s2"
proof -
  have sub: "finalized_phrases s \<subseteq> finalized_phrases s1" "finalized_phrases s1 \<subseteq> finalized_phrases s2"
    using a b by (simp_all add: step_ok_def)
  have fresh1: "\<And>x p. x \<in> set o1 \<Longrightarrow> bears x p \<Longrightarrow> \<not> py_in p (finalized_phrases s)"
    using a by (auto simp: step_ok_def)
  have fresh2: "\<And>x p. x \<in> set o2 \<Longrightarrow> bears x p \<Longrightarrow> \<not> py_in p (finalized_phrases s1)"
    using b by (auto simp: step_ok_def)
  have c1: "\<And>p. length (commits_for p o1) \<le> 1" and c2: "\<And>p. length (commits_for p o2) \<le> 1"
    using a b by (simp_all add: step_ok_def)
  have f1: "\<And>p. commits_for p o1 \<noteq> [] \<Longrightarrow> py_in p (finalized_phrases s1)"
    and f2: "\<And>p. commits_for p o2 \<noteq> [] \<Longrightarrow> py_in p (finalized_phrases s2)"
    using a b by (simp_all add: step_ok_def)
  have count: "length (commits_for p (o1 @ o2)) \<le> 1" for p
  proof (cases "commits_for p o1 = []")
    case True
    then show ?thesis using c2[of p] by (simp add: commits_for_append)
  next
    case False
    then have "py_in p (finalized_phrases s1)" by (rule f1)
    then have "commits_for p o2 = []"
      using commits_for_bears[of p o2] fresh2 by blast
    then show ?thesis using c1[of p] by (simp add: commits_for_append)
  qed
  have fin: "py_in p (finalized_phrases s2)" if "commits_for p (o1 @ o2) \<noteq> []" for p
  proof (cases "commits_for p o1 = []")
    case True
    with that have "commits_for p o2 \<noteq> []" by (simp add: commits_for_append)
    then show ?thesis by (rule f2)
  next
    case False
    then have "py_in p (finalized_phrases s1)" by (rule f1)
    then show ?thesis using sub(2) by (rule py_in_mono[rotated])
  qed
  have fresh: "\<not> py_in p (finalized_phrases s)" if "x \<in> set (o1 @ o2)" "bears x p" for x p
  proof (cases "x \<in> set o1")
    case True
    then show ?thesis using that fresh1 by blast
  next
    case False
    then have "x \<in> set o2" using that by simp
    then have "\<not> py_in p (finalized_phrases s1)" using that fresh2 by blast
    then show ?thesis using sub(1) py_in_mono by blast
  qed
  show ?thesis
    unfolding step_ok_def
    using b sub count fin fresh by (auto simp: step_ok_def)
qed

lemma new_phrase_ok:
  assumes "buffer_inv s" "\<not> py_in (phrase_id e) (finalized_phrases s)"
    "\<not> py_same (phrase_id e) (current_phrase_id s)" "new_phrase cfg e s = (x, outs, s')"
  shows "step_ok s outs s'"
  using assms set_add_mono[of "finalized_phrases s" "current_phrase_id s"]
  by (auto simp: new_phrase_def step_ok_def buffer_inv_def Let_def commits_for_def py_in_canon
      canon_set_add py_same_def split: option.splits if_splits dest!: set_add_cases)

lemma new_phrase_slot:
  assumes "\<not> py_in (phrase_id e) (finalized_phrases s)"
    "\<not> py_same (phrase_id e) (current_phrase_id s)" "new_phrase cfg e s = (x, outs, s')"
  shows "current_phrase_id s' = phrase_id e \<and> \<not> py_in (phrase_id e) (finalized_phrases s')"
  using assms
  by (auto simp: new_phrase_def Let_def py_in_set_add split: option.splits if_splits)

lemma update_phrase_ok:
  assumes "buffer_inv s" "update_phrase e s = (x, outs, s')"
    "\<not> py_in (phrase_id e) (finalized_phrases s)"
  shows "step_ok s outs s'"
  using assms
  by (auto simp: update_phrase_def step_ok_def buffer_inv_def commits_for_def py_in_canon
      py_same_def split: option.splits)

lemma update_phrase_slot:
  assumes "update_phrase e s = (x, outs, s')"
  shows "current_phrase_id s' = current_phrase_id s \<and> finalized_phrases s' = finalized_phrases s"
  using assms by (auto simp: update_phrase_def split: option.splits)

lemma final_phrase_ok:
  assumes "current_phrase_id s \<noteq> PNone \<Longrightarrow> py_same (phrase_id e) (current_phrase_id s)"
    "\<not> py_in (phrase_id e) (finalized_phrases s)" "final_phrase e s = (x, outs, s')"
  shows "step_ok s outs s'"
  using assms set_add_mono[of "finalized_phrases s" "phrase_id e"]
  by (auto simp: final_phrase_def step_ok_def buffer_inv_def Let_def commits_for_def py_in_canon
      canon_set_add py_same_def split: option.splits if_splits dest!: set_add_cases)

text \<open>
  From here on the identifier of the message is not NaN, so that the test of line 138
  tells whether the message is for the open phrase.
\<close>

lemma handle_phrase_ok:
  assumes inv: "buffer_inv s" and h: "handle_phrase cfg e s = (x, outs, s')"
    and nn: "phrase_id e \<noteq> PFloat NaN"
  shows "step_ok s outs s'"
proof (cases "\<not> hashable (phrase_id e) \<or> py_in (phrase_id e) (finalized_phrases s)")
  case True
  then have "outs = [] \<and> s' = s" using h by (auto simp: handle_phrase_def split: if_splits)
  then show ?thesis using inv by (simp add: step_ok_refl)
next
  case False
  then have fresh: "\<not> py_in (phrase_id e) (finalized_phrases s)" and hash: "hashable (phrase_id e)"
    by simp_all
  obtain x1 o1 s1 where first:
    "(if \<not> py_eq (phrase_id e) (current_phrase_id s) then new_phrase cfg e s else update_phrase e s)
       = (x1, o1, s1)"
    by (cases "if \<not> py_eq (phrase_id e) (current_phrase_id s) then new_phrase cfg e s
        else update_phrase e s") auto
  have ok1: "step_ok s o1 s1"
    using first inv fresh new_phrase_ok update_phrase_ok
    by (auto simp: py_eq_same[OF nn] split: if_splits)
  have slot: "current_phrase_id s1 \<noteq> PNone \<Longrightarrow> py_same (phrase_id e) (current_phrase_id s1)"
    and fresh1: "\<not> py_in (phrase_id e) (finalized_phrases s1)"
    using first fresh new_phrase_slot[of e s cfg x1 o1 s1] update_phrase_slot[of e s x1 o1 s1]
    by (auto simp: py_eq_same[OF nn] split: if_splits)
  show ?thesis
  proof (cases "x1 = None \<and> truthy (is_final e)")
    case False
    then have "outs = o1 \<and> s' = s1"
      using h first hash fresh by (auto simp: handle_phrase_def split: option.splits)
    then show ?thesis using ok1 by simp
  next
    case True
    obtain x2 o2 s2 where second: "final_phrase e s1 = (x2, o2, s2)"
      by (cases "final_phrase e s1") auto
    have "outs = o1 @ o2 \<and> s' = s2"
      using h first second hash fresh True by (auto simp: handle_phrase_def)
    moreover have "step_ok s1 o2 s2"
      using slot fresh1 second by (rule final_phrase_ok)
    ultimately show ?thesis using ok1 step_ok_trans by blast
  qed
qed


subsection \<open>The invariant through an iteration and through the loop\<close>

lemma logging_no_command [simp]: "x \<in> set (logging cfg l) \<Longrightarrow> \<not> bears x p \<and> \<not> is_commit_for p x"
  by (auto simp: logging_def split: if_splits)

lemma raw_log_no_command [simp]: "x \<in> set (raw_log cfg) \<Longrightarrow> \<not> bears x p \<and> \<not> is_commit_for p x"
  by (auto simp: raw_log_def logging_def split: if_splits)

lemma step_ok_logs:
  assumes "\<forall>x\<in>set outs. \<forall>p. \<not> bears x p \<and> \<not> is_commit_for p x" "buffer_inv s'"
    "finalized_phrases s' = finalized_phrases s"
  shows "step_ok s outs s'"
proof -
  have "commits_for p outs = []" for p
    using assms(1) by (auto simp: commits_for_def filter_empty_conv)
  then show ?thesis using assms by (simp add: step_ok_def)
qed

lemma dispatch_ok:
  assumes inv: "buffer_inv s" and d: "dispatch cfg d s = (x, c, outs, s')"
    and nn: "dict_get d ''phraseld'' PNone \<noteq> PFloat NaN"
  shows "step_ok s outs s'"
proof (cases "dict_get d ''type'' PNone = PStr ''phrase'' \<and> connection_successful s
    \<and> dict_get d ''translatedLanguageCode'' PNone = PStr (target_lang cfg)")
  case True
  obtain x1 o1 s1 where h: "handle_phrase cfg (read_phrase d) s = (x1, o1, s1)"
    by (cases "handle_phrase cfg (read_phrase d) s") auto
  then have ok: "step_ok s o1 s1"
    using inv nn handle_phrase_ok[of s cfg "read_phrase d"] by (simp add: read_phrase_def)
  have "s' = s1 \<and> outs = o1"
    using d h True by (auto simp: dispatch_def)
  then show ?thesis using ok by simp
next
  case False
  then have "outs \<in> {[], logging cfg INFO @ [Banner ATTRIBUTION_LINE], logging cfg ERROR,
      logging cfg INFO, logging cfg WARNING, logging cfg DEBUG}
    \<and> (s' = s \<or> s' = s\<lparr>connection_successful := True\<rparr>)"
    using d by (auto simp: dispatch_def Let_def split: if_splits)
  then show ?thesis
    using inv by (intro step_ok_logs) (auto simp: buffer_inv_def)
qed

lemma process_message_ok:
  assumes inv: "buffer_inv s" and pm: "process_message cfg m s = (c, outs, s')"
    and nn: "id_not_nan m"
  shows "step_ok s outs s'"
proof (cases "\<exists>d. m = Decoded (PDict d)")
  case True
  then obtain d where m: "m = Decoded (PDict d)" by blast
  obtain x1 c1 o1 s1 where dd: "dispatch cfg d s = (x1, c1, o1, s1)"
    by (cases "dispatch cfg d s") auto
  then have ok: "step_ok s o1 s1" using inv nn m dispatch_ok by simp
  have raw: "step_ok s (raw_log cfg) s"
    using inv by (intro step_ok_logs) auto
  have err: "step_ok s1 (logging cfg ERROR) s1"
    using ok by (intro step_ok_logs) (auto simp: step_ok_def)
  have "s' = s1 \<and> (outs = raw_log cfg @ o1 \<or> outs = raw_log cfg @ o1 @ logging cfg ERROR)"
    using pm m dd by (auto simp: process_message_def loop_body_def split: option.splits)
  then show ?thesis
    using step_ok_trans[OF raw ok] step_ok_trans[OF step_ok_trans[OF raw ok] err] by auto
next
  case False
  then have "s' = s \<and> (outs = logging cfg WARNING \<or> outs = logging cfg ERROR
      \<or> outs = raw_log cfg @ logging cfg ERROR)"
    using pm by (auto simp: process_message_def loop_body_def split: message.splits pyval.splits)
  then show ?thesis
    using inv by (intro step_ok_logs) auto
qed

lemma message_loop_ok:
  "buffer_inv s \<Longrightarrow> \<forall>m\<in>set ms. id_not_nan m \<Longrightarrow> message_loop cfg ms s = (c, outs, s')
     \<Longrightarrow> step_ok s outs s'"
proof (induction ms arbitrary: s c outs s')
  case Nil
  then show ?case by (simp add: step_ok_refl)
next
  case (Cons m ms)
  obtain c1 o1 s1 where pm: "process_message cfg m s = (c1, o1, s1)"
    by (cases "process_message cfg m s") auto
  then have ok1: "step_ok s o1 s1"
    using Cons.prems(1,2) process_message_ok[of s cfg m c1 o1 s1] by simp
  show ?case
  proof (cases c1)
    case Break
    then have "outs = o1 \<and> s' = s1" using Cons.prems(3) pm by simp
    then show ?thesis using ok1 by simp
  next
    case Continue
    obtain c2 o2 s2 where ml: "message_loop cfg ms s1 = (c2, o2, s2)"
      by (cases "message_loop cfg ms s1") auto
    have "buffer_inv s1" using ok1 by (simp add: step_ok_def)
    then have "step_ok s1 o2 s2" using ml Cons.IH Cons.prems(2) by simp
    moreover have "outs = o1 @ o2 \<and> s' = s2"
      using Cons.prems(3) pm ml Continue by simp
    ultimately show ?thesis using ok1 step_ok_trans by blast
  qed
qed

lemma buffer_inv_initial: "buffer_inv initial_state"
  by (simp add: buffer_inv_def initial_state_def)

lemma message_loop_append:
  "message_loop cfg (ms1 @ ms2) s =
     (case message_loop cfg ms1 s of
        (Break, o1, s1) \<Rightarrow> (Break, o1, s1)
      | (Continue, o1, s1) \<Rightarrow>
          (case message_loop cfg ms2 s1 of (c, o2, s2) \<Rightarrow> (c, o1 @ o2, s2)))"
  by (induction ms1 arbitrary: s) (auto split: prod.splits control.splits)

lemma outputs_ok:
  "buffer_inv s \<Longrightarrow> \<forall>m\<in>set ms. id_not_nan m
     \<Longrightarrow> step_ok s (outputs cfg ms s) (state_after cfg ms s)"
  using message_loop_ok[of s ms cfg]
  by (cases "message_loop cfg ms s") (simp add: outputs_def state_after_def)

lemma state_after_inv:
  "\<forall>m\<in>set ms. id_not_nan m \<Longrightarrow> buffer_inv (state_after cfg ms initial_state)"
  using outputs_ok[OF buffer_inv_initial, of ms cfg] by (simp add: step_ok_def)

lemma loop_append_cases:
  "(outputs cfg (ms1 @ ms2) s = outputs cfg ms1 s
      \<and> state_after cfg (ms1 @ ms2) s = state_after cfg ms1 s)
   \<or> (outputs cfg (ms1 @ ms2) s = outputs cfg ms1 s @ outputs cfg ms2 (state_after cfg ms1 s)
      \<and> state_after cfg (ms1 @ ms2) s = state_after cfg ms2 (state_after cfg ms1 s))"
  by (simp add: outputs_def state_after_def message_loop_append split: prod.splits control.splits)

subsection \<open>Evaluating the loop on a given feed\<close>

lemmas eval_defs = process_message_def loop_body_def dispatch_def dict_get_def handle_phrase_def
  read_phrase_def new_phrase_def update_phrase_def final_phrase_def logging_def raw_log_def
  en_config_def source_config_def initial_state_def status_msg_def end_msg_def phrase_msg_def
  phrase_dict_def
  active_state_def open_prefix_def change_prefix_def speaker_changed_def py_in_def py_eq_def set_add_def
  existing_prefix_def re_sub_prefix_def prefix_match_len_def name_part_len_def
  ATTRIBUTION_LINE_def Let_def fstring_def outputs_def state_after_def commits_for_def
  py_same_def
  renders_def open_partial_def open_three_def spanish_dict_def no_id_dict_def
  no_text_dict_def list_id_dict_def

subsection \<open>The open phrase and the finalized set\<close>

text \<open>
  As long as no phrase identifier is NaN: after any messages \<open>ms1\<close> of a session, a
  phrase that is open has an identifier that is not in \<^verbatim>\<open>finalized_phrases\<close>, neither
  as an element nor as a value equal to one; and whatever messages \<open>ms2\<close> follow, every
  element of the finalized set is still in it afterwards.
\<close>

lemma open_phrase_free_without_nan:
  assumes "\<forall>m\<in>set ms1. id_not_nan m"
  shows "current_phrase_id (state_after cfg ms1 initial_state) \<noteq> PNone \<longrightarrow>
      \<not> py_in (current_phrase_id (state_after cfg ms1 initial_state))
           (finalized_phrases (state_after cfg ms1 initial_state))
      \<and> current_phrase_id (state_after cfg ms1 initial_state)
           \<notin> finalized_phrases (state_after cfg ms1 initial_state)"
  using state_after_inv[OF assms, of cfg] py_in_self by (auto simp: buffer_inv_def)

text \<open>The finalized set only grows, whatever the identifiers are.\<close>

lemma handle_phrase_grows:
  "handle_phrase cfg e s = (x, outs, s') \<Longrightarrow> finalized_phrases s \<subseteq> finalized_phrases s'"
  using set_add_mono[of "finalized_phrases s" "current_phrase_id s"]
    set_add_mono[of "finalized_phrases s" "phrase_id e"]
    set_add_mono[of "set_add (current_phrase_id s) (finalized_phrases s)" "phrase_id e"]
  by (auto simp: handle_phrase_def new_phrase_def update_phrase_def final_phrase_def Let_def
      split: if_splits option.splits)

lemma process_message_grows:
  assumes "process_message cfg m s = (c, outs, s')"
  shows "finalized_phrases s \<subseteq> finalized_phrases s'"
proof (cases "\<exists>d. m = Decoded (PDict d)")
  case True
  then obtain d where m: "m = Decoded (PDict d)" by blast
  obtain x o1 s1 where h: "handle_phrase cfg (read_phrase d) s = (x, o1, s1)"
    by (cases "handle_phrase cfg (read_phrase d) s") auto
  have "s' = s \<or> s' = s\<lparr>connection_successful := True\<rparr> \<or> s' = s1"
    using assms m h
    by (auto simp: process_message_def loop_body_def dispatch_def Let_def
        split: if_splits option.splits)
  then show ?thesis using handle_phrase_grows[OF h] by auto
next
  case False
  then have "s' = s"
    using assms
    by (auto simp: process_message_def loop_body_def split: message.splits pyval.splits)
  then show ?thesis by simp
qed

lemma message_loop_grows:
  "message_loop cfg ms s = (c, outs, s') \<Longrightarrow> finalized_phrases s \<subseteq> finalized_phrases s'"
proof (induction ms arbitrary: s c outs s')
  case Nil
  then show ?case by simp
next
  case (Cons m ms)
  obtain c1 o1 s1 where pm: "process_message cfg m s = (c1, o1, s1)"
    by (cases "process_message cfg m s") auto
  note g1 = process_message_grows[OF pm]
  show ?case
  proof (cases c1)
    case Break
    then show ?thesis using Cons.prems pm g1 by simp
  next
    case Continue
    obtain c2 o2 s2 where ml: "message_loop cfg ms s1 = (c2, o2, s2)"
      by (cases "message_loop cfg ms s1") auto
    then have "finalized_phrases s1 \<subseteq> finalized_phrases s2" by (rule Cons.IH)
    moreover have "s' = s2" using Cons.prems pm ml Continue by simp
    ultimately show ?thesis using g1 by blast
  qed
qed

lemma finalized_only_grows:
  "finalized_phrases (state_after cfg ms1 s) \<subseteq> finalized_phrases (state_after cfg (ms1 @ ms2) s)"
proof -
  have "finalized_phrases (state_after cfg ms1 s)
      \<subseteq> finalized_phrases (state_after cfg ms2 (state_after cfg ms1 s))"
    using message_loop_grows[of cfg ms2 "state_after cfg ms1 s"]
    by (cases "message_loop cfg ms2 (state_after cfg ms1 s)") (simp add: state_after_def)
  then show ?thesis
    using loop_append_cases[of cfg ms1 ms2 s] by auto
qed

lemma feed_nan_open_run:
  "message_loop en_config feed_nan_open initial_state =
     (Continue,
      [Log DEBUG, Log INFO, Banner ATTRIBUTION_LINE,
       Log DEBUG, Update (PFloat NaN) ''a'',
       Log DEBUG, Println (PFloat NaN) ''a'', Update (PFloat NaN) ''b''],
      active_state\<lparr>current_phrase_id := PFloat NaN, current_phrase_text := ''b'',
        finalized_phrases := {PFloat NaN}\<rparr>)"
  by (simp add: eval_defs feed_nan_open_def)

text \<open>
  C10.  On \<open>feed_nan_open\<close> the code breaks the first half of the property.  Both phrase
  messages have the identifier NaN.  The second one is not found in the finalized set
  (line 134), and the test \<^verbatim>\<open>phrase_id != current_phrase_id\<close> of line 138 is true of
  NaN against itself, so the open phrase NaN is rolled over and added to the finalized
  set (line 143) and NaN is opened again (line 160): afterwards the open phrase has the
  identifier NaN, and NaN is in the finalized set, as an element and for \<^verbatim>\<open>in\<close>.
\<close>

theorem open_phrase_finalized_nan:
  "current_phrase_id (state_after en_config feed_nan_open initial_state) = PFloat NaN
   \<and> finalized_phrases (state_after en_config feed_nan_open initial_state) = {PFloat NaN}
   \<and> py_in (current_phrase_id (state_after en_config feed_nan_open initial_state))
        (finalized_phrases (state_after en_config feed_nan_open initial_state))"
  by (simp add: state_after_def feed_nan_open_run active_state_def py_in_def)

subsection \<open>Iterations by message kind\<close>

lemma renders_logging [simp]: "renders (logging cfg l) = []"
  by (simp add: renders_def logging_def)

lemma renders_raw_log [simp]: "renders (raw_log cfg) = []"
  by (simp add: renders_def raw_log_def logging_def)

lemma renders_append [simp]: "renders (xs @ ys) = renders xs @ renders ys"
  by (simp add: renders_def)

lemma dispatch_phrase:
  assumes "dict_get d ''type'' PNone = PStr ''phrase''"
  shows "dispatch cfg d s =
     (if connection_successful s
      then (if dict_get d ''translatedLanguageCode'' PNone \<noteq> PStr (target_lang cfg)
            then (None, Continue, [], s)
            else (case handle_phrase cfg (read_phrase d) s of
                    (x, outs, s') \<Rightarrow> (x, Continue, outs, s')))
      else (None, Continue, [], s))"
  using assms by (simp add: dispatch_def Let_def)

lemma dispatch_status:
  assumes "dict_get d ''type'' PNone = PStr ''status''"
  shows "dispatch cfg d s =
     (if truthy (dict_get d ''success'' (PBool False))
      then (None, Continue, logging cfg INFO @ [Banner ATTRIBUTION_LINE],
            s\<lparr>connection_successful := True\<rparr>)
      else (None, Break, logging cfg ERROR, s))"
  using assms by (simp add: dispatch_def Let_def)

lemma dispatch_end:
  assumes "dict_get d ''type'' PNone = PStr ''end''"
  shows "dispatch cfg d s = (None, Break, logging cfg INFO, s)"
  using assms by (simp add: dispatch_def Let_def)

lemma process_message_dict:
  "process_message cfg (Decoded (PDict d)) s =
     (case dispatch cfg d s of
        (None, c, outs, s') \<Rightarrow> (c, raw_log cfg @ outs, s')
      | (Some x, c, outs, s') \<Rightarrow> (Continue, raw_log cfg @ outs @ logging cfg ERROR, s'))"
  by (simp add: process_message_def loop_body_def split: prod.splits option.splits)

lemma finalized_phrase_noop:
  assumes "dict_get d ''type'' PNone = PStr ''phrase''"
    and "py_in (dict_get d ''phraseld'' PNone) (finalized_phrases s)"
  shows "\<exists>logs. process_message cfg (Decoded (PDict d)) s = (Continue, logs, s) \<and> renders logs = []"
  using assms
  by (simp add: process_message_dict dispatch_phrase handle_phrase_def read_phrase_def)

subsection \<open>At most one commit\<close>

text \<open>
  As long as no phrase identifier is NaN, the output of a session holds, for every
  identifier \<open>p\<close>, at most one commit bearing \<open>p\<close>; and once \<open>p\<close> is in the
  finalized set, after the messages \<open>ms1\<close>, whatever the messages \<open>ms2\<close> after them add
  to the output holds no render command bearing \<open>p\<close>.
\<close>

lemma at_most_once_without_nan:
  assumes "\<forall>m\<in>set ms. id_not_nan m"
  shows "length (commits_for p (outputs cfg ms initial_state)) \<le> 1"
  using outputs_ok[OF buffer_inv_initial assms, of cfg] by (simp add: step_ok_def)

lemma quiet_after_finalized_without_nan:
  assumes nn: "\<forall>m\<in>set (ms1 @ ms2). id_not_nan m"
    and fin: "py_in p (finalized_phrases (state_after cfg ms1 initial_state))"
  shows "\<exists>later. outputs cfg (ms1 @ ms2) initial_state = outputs cfg ms1 initial_state @ later
           \<and> (\<forall>x\<in>set later. \<not> bears x p)"
proof -
  let ?s1 = "state_after cfg ms1 initial_state"
  have "buffer_inv ?s1" using nn by (intro state_after_inv) simp
  then have "step_ok ?s1 (outputs cfg ms2 ?s1) (state_after cfg ms2 ?s1)"
    using nn by (intro outputs_ok) simp_all
  then have quiet: "\<forall>x\<in>set (outputs cfg ms2 ?s1). \<not> bears x p"
    using fin by (auto simp: step_ok_def)
  from loop_append_cases[of cfg ms1 ms2 initial_state]
  have "outputs cfg (ms1 @ ms2) initial_state = outputs cfg ms1 initial_state @ []
      \<or> outputs cfg (ms1 @ ms2) initial_state
          = outputs cfg ms1 initial_state @ outputs cfg ms2 ?s1"
    by auto
  then show ?thesis using quiet by (metis empty_iff list.set(1))
qed

lemma feed_nan_run:
  "message_loop en_config feed_nan initial_state =
     (Continue,
      [Log DEBUG, Log INFO, Banner ATTRIBUTION_LINE,
       Log DEBUG, Update (PFloat NaN) ''a'',
       Log DEBUG, Println (PFloat NaN) ''a'', Update (PFloat NaN) ''b'',
       Log DEBUG, Println (PFloat NaN) ''b'', Update (PInt 2) ''c''],
      active_state\<lparr>current_phrase_id := PInt 2, current_phrase_text := ''c'',
        finalized_phrases := {PFloat NaN}\<rparr>)"
  by (simp add: eval_defs feed_nan_def feed_nan_open_def)

text \<open>
  C1.  On \<open>feed_nan\<close> the code breaks the property.  The identifier of the first two
  phrase messages is NaN.  The second is taken for a new phrase (line 138: NaN is not
  equal to itself), so line 141 ends the line of phrase NaN, line 143 adds NaN to the
  finalized set and line 163 prints an update for NaN, an identifier that is in the set
  by then.  When phrase 2 arrives, NaN is in the finalized set and line 141 ends the
  line of phrase NaN a second time.
\<close>

theorem nan_committed_twice:
  "renders (outputs en_config feed_nan initial_state)
     = [Update (PFloat NaN) ''a'', Println (PFloat NaN) ''a'', Update (PFloat NaN) ''b'',
        Println (PFloat NaN) ''b'', Update (PInt 2) ''c'']
   \<and> commits_for (PFloat NaN) (outputs en_config feed_nan initial_state)
       = [Println (PFloat NaN) ''a'', Println (PFloat NaN) ''b'']
   \<and> py_in (PFloat NaN) (finalized_phrases (state_after en_config feed_nan_open initial_state))
   \<and> outputs en_config feed_nan initial_state
       = outputs en_config feed_nan_open initial_state
         @ [Log DEBUG, Println (PFloat NaN) ''b'', Update (PInt 2) ''c'']"
  by (simp add: outputs_def state_after_def feed_nan_run feed_nan_open_run renders_def
      commits_for_def py_same_def py_in_def active_state_def)

subsection \<open>Rollover\<close>

lemma phrase_id_read [simp]: "phrase_id (read_phrase d) = dict_get d ''phraseld'' PNone"
  by (simp add: read_phrase_def)

lemma new_phrase_flush:
  assumes "current_phrase_id s \<noteq> PNone"
  shows "\<exists>x upd s1. new_phrase cfg e s = (x, Println (current_phrase_id s) (current_phrase_text s) # upd, s1)
     \<and> current_phrase_id s1 = phrase_id e
     \<and> finalized_phrases s1 = set_add (current_phrase_id s) (finalized_phrases s)
     \<and> (\<forall>y\<in>set upd. \<exists>t. y = Update (phrase_id e) t)
     \<and> (x = None \<longleftrightarrow> as_str (text' e) \<noteq> None)"
  using assms by (auto simp: new_phrase_def Let_def split: option.splits)

lemma final_phrase_shape:
  "\<exists>x com s2. final_phrase e s1 = (x, com, s2)
     \<and> (\<forall>y\<in>set com. \<exists>t. y = Commit (phrase_id e) t)
     \<and> finalized_phrases s1 \<subseteq> finalized_phrases s2
     \<and> current_phrase_id s2 = (if as_str (text' e) \<noteq> None then PNone else current_phrase_id s1)"
  using set_add_mono[of "finalized_phrases s1" "phrase_id e"]
  by (auto simp: final_phrase_def split: option.splits)

text \<open>
  The order of the rollover.  Phrase \<open>A\<close> is open and a phrase message for another
  identifier \<open>B\<close>, not finalized, arrives in an active session.  The iteration first
  prints the displayed text of \<open>A\<close> with a newline, by line 141; nothing written after
  that bears \<open>A\<close>, and every render command after it bears \<open>B\<close>.  \<open>A\<close> is in the
  finalized set afterwards.  The new-phrase branch leaves with \<open>B\<close> in
  \<^verbatim>\<open>current_phrase_id\<close>; \<open>B\<close> is still there at the end of the iteration unless the
  same message is final.
\<close>

lemma rollover_step:
  assumes conn: "connection_successful s"
    and type: "dict_get d ''type'' PNone = PStr ''phrase''"
    and lang: "dict_get d ''translatedLanguageCode'' PNone = PStr (target_lang cfg)"
    and A: "current_phrase_id s = A" "A \<noteq> PNone"
    and B: "dict_get d ''phraseld'' PNone = B" "hashable B" "\<not> py_same B A"
      "\<not> py_in B (finalized_phrases s)"
  shows "\<exists>rest s'.
      process_message cfg (Decoded (PDict d)) s
        = (Continue, raw_log cfg @ Println A (current_phrase_text s) # rest, s')
      \<and> (\<forall>x\<in>set rest. \<not> bears x A \<and> (is_render x \<longrightarrow> bears x B))
      \<and> py_in A (finalized_phrases s')
      \<and> current_phrase_id (snd (snd (new_phrase cfg (read_phrase d) s))) = B
      \<and> current_phrase_id s'
          = (if truthy (is_final (read_phrase d)) \<and> as_str (text' (read_phrase d)) \<noteq> None
             then PNone else B)"
proof -
  let ?e = "read_phrase d"
  have pid: "phrase_id ?e = B" using B(1) by simp
  obtain x upd s1 where np: "new_phrase cfg ?e s = (x, Println A (current_phrase_text s) # upd, s1)"
    and slot: "current_phrase_id s1 = B"
    and fin1: "finalized_phrases s1 = set_add A (finalized_phrases s)"
    and upd: "\<forall>y\<in>set upd. \<exists>t. y = Update B t"
    and x: "x = None \<longleftrightarrow> as_str (text' ?e) \<noteq> None"
    using new_phrase_flush[of s cfg ?e] A pid by auto
  obtain x2 com s2 where fp: "final_phrase ?e s1 = (x2, com, s2)"
    and com: "\<forall>y\<in>set com. \<exists>t. y = Commit B t"
    and fin2: "finalized_phrases s1 \<subseteq> finalized_phrases s2"
    and slot2: "current_phrase_id s2 = (if as_str (text' ?e) \<noteq> None then PNone else current_phrase_id s1)"
    using final_phrase_shape[of ?e s1] pid by auto
  have inA: "py_in A (finalized_phrases s1)" by (simp add: fin1 py_in_set_add)
  have nb: "\<not> py_same B A" by (rule B(3))
  then have ne: "\<not> py_eq B A" by (simp add: py_eq_def)
  have hp: "handle_phrase cfg ?e s =
      (if x = None \<and> truthy (is_final ?e)
       then (x2, (Println A (current_phrase_text s) # upd) @ com, s2)
       else (x, Println A (current_phrase_text s) # upd, s1))"
    using B(2,4) ne A np fp pid by (auto simp: handle_phrase_def split: option.splits)
  define rest where "rest =
     (if x = None \<and> truthy (is_final ?e) then upd @ com @ (if x2 = None then [] else logging cfg ERROR)
      else upd @ (if x = None then [] else logging cfg ERROR))"
  define s' where "s' = (if x = None \<and> truthy (is_final ?e) then s2 else s1)"
  have pm: "process_message cfg (Decoded (PDict d)) s
        = (Continue, raw_log cfg @ Println A (current_phrase_text s) # rest, s')"
    using conn type lang hp
    by (auto simp: process_message_dict dispatch_phrase rest_def s'_def split: option.splits)
  have rest: "\<forall>y\<in>set rest. \<not> bears y A \<and> (is_render y \<longrightarrow> bears y B)"
    using upd com nb by (auto simp: rest_def logging_def split: if_splits)
  have fin: "py_in A (finalized_phrases s')"
    using inA fin2 py_in_mono by (auto simp: s'_def)
  have slot': "current_phrase_id s'
          = (if truthy (is_final ?e) \<and> as_str (text' ?e) \<noteq> None then PNone else B)"
    using slot slot2 x by (auto simp: s'_def)
  have mid: "current_phrase_id (snd (snd (new_phrase cfg ?e s))) = B"
    using np slot by simp
  show ?thesis using pm rest fin mid slot' by blast
qed

lemma feed_rollover_run:
  "message_loop en_config feed_rollover initial_state =
     (Continue,
      [Log DEBUG, Log INFO, Banner ATTRIBUTION_LINE,
       Log DEBUG, Update (PInt 1) ''partial'',
       Log DEBUG, Println (PInt 1) ''partial'', Update (PInt 2) ''new''],
      active_state\<lparr>current_phrase_id := PInt 2, current_phrase_text := ''new'',
        finalized_phrases := {PInt 1}\<rparr>)"
  by (simp add: eval_defs feed_rollover_def)

text \<open>
  C2.  On \<open>feed_rollover\<close> phrase 1 is open with the text \<^verbatim>\<open>partial\<close> when phrase 2
  arrives.  What the code prints for phrase 1 then is not a commit of its displayed
  text: line 141 writes the text and a newline with no carriage return before them,
  unlike the commit of line 187, so the text follows the same text on the line that
  the last update left open, and the line that ends reads \<^verbatim>\<open>partialpartial\<close>.
\<close>

theorem rollover_print_appends:
  "renders (outputs en_config feed_rollover initial_state)
     = [Update (PInt 1) ''partial'', Println (PInt 1) ''partial'', Update (PInt 2) ''new'']
   \<and> stdout (outputs en_config feed_rollover initial_state)
       = ATTRIBUTION_LINE @ [LF] @ [CR] @ ''partial'' @ ''partial'' @ [LF] @ [CR] @ ''new''
   \<and> written (Commit (PInt 1) ''partial'') = [CR] @ ''partial'' @ [LF]
   \<and> written (Println (PInt 1) ''partial'') = ''partial'' @ [LF]"
  by (simp add: outputs_def feed_rollover_run renders_def stdout_def)

subsection \<open>The prefix of an open phrase\<close>

text \<open>The pattern matches a prefix of the string, and \<open>existing_prefix\<close> is that prefix.\<close>

lemma name_part_len_le: "name_part_len s \<le> length s"
proof -
  have "length (takeWhile (\<lambda>c. c \<noteq> CHR '':'') s) + length (dropWhile (\<lambda>c. c \<noteq> CHR '':'') s)
      = length s"
    by (metis length_append takeWhile_dropWhile_id)
  moreover have "take 2 (dropWhile (\<lambda>c. c \<noteq> CHR '':'') s) = '': ''
      \<Longrightarrow> 2 \<le> length (dropWhile (\<lambda>c. c \<noteq> CHR '':'') s)"
    by (metis length_take min.cobounded1 length_Cons list.size(3) One_nat_def Suc_1)
  ultimately show ?thesis
    by (auto simp: name_part_len_def Let_def)
qed

lemma prefix_match_len_le: "prefix_match_len s \<le> length s"
proof (cases "take 3 s = ''>> ''")
  case True
  then have "3 \<le> length s"
    by (metis length_take min.cobounded1 length_Cons list.size(3) numeral_3_eq_3)
  then show ?thesis
    using True name_part_len_le[of "drop 3 s"] by (simp add: prefix_match_len_def)
next
  case False
  then show ?thesis using name_part_len_le[of s] by (simp add: prefix_match_len_def)
qed

lemma existing_prefix_match: "existing_prefix s = take (prefix_match_len s) s"
  using prefix_match_len_le[of s]
  by (simp add: existing_prefix_def re_sub_prefix_def Let_def)

lemma name_part_len_no_colon: "CHR '':'' \<notin> set t \<Longrightarrow> name_part_len t = 0"
proof -
  assume "CHR '':'' \<notin> set t"
  then have d: "dropWhile (\<lambda>c. c \<noteq> CHR '':'') t = []"
    by (auto simp: dropWhile_eq_Nil_conv)
  show ?thesis unfolding name_part_len_def Let_def d by simp
qed

text \<open>
  A text without a colon gives the prefix back as it was set when the phrase opened
  with the flags of the file: the marker, or nothing (then unless the text itself starts
  with the marker).
\<close>

lemma existing_prefix_marker:
  "CHR '':'' \<notin> set t \<Longrightarrow> existing_prefix (''>> '' @ t) = ''>> ''"
  by (simp add: existing_prefix_match prefix_match_len_def name_part_len_no_colon)

lemma existing_prefix_plain:
  "CHR '':'' \<notin> set t \<Longrightarrow> take 3 t \<noteq> ''>> '' \<Longrightarrow> existing_prefix t = []"
  by (simp add: existing_prefix_match prefix_match_len_def name_part_len_no_colon)

lemma feed_colon_run:
  "message_loop en_config feed_colon initial_state =
     (Continue,
      [Log DEBUG, Log INFO, Banner ATTRIBUTION_LINE,
       Log DEBUG, Update (PInt 1) ''Note: a'',
       Log DEBUG, Update (PInt 1) ''Note: Note: ab'', Commit (PInt 1) ''Note: Note: ab''],
      active_state\<lparr>finalized_phrases := {PInt 1}\<rparr>)"
  by (simp add: eval_defs feed_colon_def)

text \<open>
  C3.  The phrase of \<open>feed_colon\<close> opens with the empty prefix (no speaker is given)
  and the text \<^verbatim>\<open>Note: a\<close>; its update and its final message carry the text
  \<^verbatim>\<open>Note: ab\<close>.  Lines 170 and 181 take \<^verbatim>\<open>Note: \<close>, the start of the displayed text,
  for the prefix, so the update and the commit carry \<^verbatim>\<open>Note: Note: ab\<close>, not the
  empty prefix followed by the latest text.
\<close>

theorem prefix_recovered_from_text:
  "renders (outputs en_config feed_colon initial_state)
     = [Update (PInt 1) ''Note: a'', Update (PInt 1) ''Note: Note: ab'',
        Commit (PInt 1) ''Note: Note: ab'']
   \<and> open_prefix en_config (read_phrase (phrase_dict (PInt 1) ''Note: a'' False PNone))
        active_state = []
   \<and> existing_prefix ''Note: a'' = ''Note: ''"
  by (simp add: outputs_def feed_colon_run renders_def)
    (simp add: eval_defs)

subsection \<open>The end of the presentation\<close>

lemma feed_end_run:
  "message_loop en_config feed_end initial_state =
     (Break,
      [Log DEBUG, Log INFO, Banner ATTRIBUTION_LINE, Log DEBUG, Update (PInt 3) ''x'',
       Log DEBUG, Log INFO],
      open_three)"
  by (simp add: eval_defs feed_end_def)

text \<open>
  C4, as stated, fails on \<open>feed_end\<close>: phrase 3 is open when the \<^verbatim>\<open>end\<close> message
  arrives, the loop ends, and the output holds no commit for phrase 3, which is still in
  the buffer.
\<close>

theorem end_flush_counterexample:
  "fst (message_loop en_config feed_end initial_state) = Break
   \<and> commits_for (PInt 3) (outputs en_config feed_end initial_state) = []
   \<and> renders (outputs en_config feed_end initial_state) = [Update (PInt 3) ''x'']
   \<and> current_phrase_id (state_after en_config feed_end initial_state) = PInt 3"
  by (simp add: outputs_def state_after_def feed_end_run renders_def commits_for_def
      open_three_def)

text \<open>
  C4, amended.  An \<^verbatim>\<open>end\<close> message ends the loop at once: the iteration writes log
  records only, no render command, and leaves every variable as it was, so an open
  phrase stays in the buffer without a commit; no later message is processed.
\<close>

theorem end_closes_without_flush:
  assumes "dict_get d ''type'' PNone = PStr ''end''"
  shows "process_message cfg (Decoded (PDict d)) s = (Break, raw_log cfg @ logging cfg INFO, s)
    \<and> renders (raw_log cfg @ logging cfg INFO) = []
    \<and> message_loop cfg (Decoded (PDict d) # rest) s = (Break, raw_log cfg @ logging cfg INFO, s)"
  using assms by (simp add: process_message_dict dispatch_end)

theorem end_closes_without_flush_witness:
  "process_message en_config end_msg open_three = (Break, [Log DEBUG, Log INFO], open_three)
   \<and> message_loop en_config [end_msg, phrase_msg (PInt 4) ''more'' True PNone] open_three
       = (Break, [Log DEBUG, Log INFO], open_three)"
  using end_closes_without_flush[of "[''type'' \<mapsto> PStr ''end'']" en_config open_three
      "[phrase_msg (PInt 4) ''more'' True PNone]"]
  by (simp add: end_msg_def dict_get_def raw_log_def logging_def en_config_def source_config_def)

subsection \<open>Phrases outside an active session, and in another language\<close>

lemma inactive_phrase_noop:
  assumes "dict_get d ''type'' PNone = PStr ''phrase''" "\<not> connection_successful s"
  shows "process_message cfg (Decoded (PDict d)) s = (Continue, raw_log cfg, s)"
  using assms by (simp add: process_message_dict dispatch_phrase)

lemma status_failure_breaks:
  assumes "dict_get d ''type'' PNone = PStr ''status''"
    "\<not> truthy (dict_get d ''success'' (PBool False))"
  shows "process_message cfg (Decoded (PDict d)) s = (Break, raw_log cfg @ logging cfg ERROR, s)"
  using assms by (simp add: process_message_dict dispatch_status)

text \<open>
  Before the first successful status message \<^verbatim>\<open>connection_successful\<close> is false, and
  an iteration that starts so and is not that message changes no variable and writes no
  render command.
\<close>

lemma inactive_iteration:
  assumes "\<not> connection_successful s" "\<not> status_success m"
    "process_message cfg m s = (c, outs, s')"
  shows "s' = s \<and> renders outs = []"
proof (cases "\<exists>d. m = Decoded (PDict d)")
  case True
  then obtain d where m: "m = Decoded (PDict d)" by blast
  have "dispatch cfg d s \<in> {(None, Break, logging cfg ERROR, s), (None, Break, logging cfg INFO, s),
      (None, Continue, logging cfg WARNING, s), (None, Continue, [], s)}"
    using assms(1,2) m by (auto simp: dispatch_def Let_def)
  then show ?thesis
    using assms(3) m by (auto simp: process_message_dict)
next
  case False
  then show ?thesis
    using assms(3)
    by (auto simp: process_message_def loop_body_def split: message.splits pyval.splits)
qed

lemma inactive_loop:
  assumes "\<not> connection_successful s" "\<forall>m\<in>set ms. \<not> status_success m"
  shows "state_after cfg ms s = s \<and> renders (outputs cfg ms s) = []"
  using assms
proof (induction ms)
  case Nil
  then show ?case by (simp add: state_after_def outputs_def renders_def)
next
  case (Cons m ms)
  obtain c o1 s1 where pm: "process_message cfg m s = (c, o1, s1)"
    by (cases "process_message cfg m s") auto
  then have one: "s1 = s \<and> renders o1 = []"
    using Cons.prems inactive_iteration by (metis list.set_intros(1))
  have rest: "state_after cfg ms s = s \<and> renders (outputs cfg ms s) = []"
    using Cons by simp
  show ?case
    using pm one rest
    by (cases c) (auto simp: state_after_def outputs_def split: prod.splits)
qed

lemma status_failure_ends_loop:
  assumes "dict_get d ''type'' PNone = PStr ''status''"
    "\<not> truthy (dict_get d ''success'' (PBool False))"
  shows "message_loop cfg (ms1 @ Decoded (PDict d) # rest) s
    = message_loop cfg (ms1 @ [Decoded (PDict d)]) s"
  using assms
  by (simp add: message_loop_append status_failure_breaks split: prod.splits control.splits)

text \<open>
  C5.  A phrase message that arrives while \<^verbatim>\<open>connection_successful\<close> is false is a
  no-op: log records only, every variable as it was.  In a session, as long as no status
  message with a true \<^verbatim>\<open>success\<close> has arrived, the variables are the initial ones and
  no render command has been written, whatever the messages were.  A status message
  whose \<^verbatim>\<open>success\<close> is false or missing ends the loop in every state, without a render
  command and without a change; the messages after it are not processed: the run is the
  run of the feed cut after that message.
\<close>

theorem phrases_only_while_active:
  "(dict_get d ''type'' PNone = PStr ''phrase'' \<and> \<not> connection_successful s \<longrightarrow>
      process_message cfg (Decoded (PDict d)) s = (Continue, raw_log cfg, s)
      \<and> renders (raw_log cfg) = [])
   \<and> ((\<forall>m\<in>set ms. \<not> status_success m) \<longrightarrow>
      state_after cfg ms initial_state = initial_state
      \<and> renders (outputs cfg ms initial_state) = [])
   \<and> (dict_get f ''type'' PNone = PStr ''status''
       \<and> \<not> truthy (dict_get f ''success'' (PBool False)) \<longrightarrow>
      process_message cfg (Decoded (PDict f)) s = (Break, raw_log cfg @ logging cfg ERROR, s)
      \<and> renders (raw_log cfg @ logging cfg ERROR) = []
      \<and> message_loop cfg (ms1 @ Decoded (PDict f) # rest) s
          = message_loop cfg (ms1 @ [Decoded (PDict f)]) s)"
proof (intro conjI impI)
  assume a: "dict_get d ''type'' PNone = PStr ''phrase'' \<and> \<not> connection_successful s"
  then show "process_message cfg (Decoded (PDict d)) s = (Continue, raw_log cfg, s)"
    by (simp add: inactive_phrase_noop)
  show "renders (raw_log cfg) = []" by simp
next
  assume "\<forall>m\<in>set ms. \<not> status_success m"
  moreover have "\<not> connection_successful initial_state" by (simp add: initial_state_def)
  ultimately have "state_after cfg ms initial_state = initial_state
      \<and> renders (outputs cfg ms initial_state) = []"
    by (intro inactive_loop)
  then show "state_after cfg ms initial_state = initial_state"
    and "renders (outputs cfg ms initial_state) = []" by blast+
next
  assume a: "dict_get f ''type'' PNone = PStr ''status''
       \<and> \<not> truthy (dict_get f ''success'' (PBool False))"
  then show "process_message cfg (Decoded (PDict f)) s = (Break, raw_log cfg @ logging cfg ERROR, s)"
    by (simp add: status_failure_breaks)
  show "renders (raw_log cfg @ logging cfg ERROR) = []" by simp
  show "message_loop cfg (ms1 @ Decoded (PDict f) # rest) s
          = message_loop cfg (ms1 @ [Decoded (PDict f)]) s"
    using a by (intro status_failure_ends_loop) blast+
qed

lemma feed_rejected_run:
  "message_loop en_config feed_rejected initial_state
     = (Break, [Log DEBUG, Log DEBUG, Log ERROR], initial_state)"
  by (simp add: eval_defs feed_rejected_def)

text \<open>
  The rejected session: a phrase before the status message, the status message with
  \<^verbatim>\<open>success\<close> false, a phrase after it.  Nothing is rendered and no variable changes.
\<close>

theorem phrases_only_while_active_witness:
  "process_message en_config (phrase_msg (PInt 1) ''early'' False PNone) initial_state
     = (Continue, [Log DEBUG], initial_state)
   \<and> state_after en_config [phrase_msg (PInt 1) ''early'' False PNone] initial_state
       = initial_state
   \<and> process_message en_config (status_msg False) initial_state
       = (Break, [Log DEBUG, Log ERROR], initial_state)
   \<and> message_loop en_config feed_rejected initial_state
       = message_loop en_config
           [phrase_msg (PInt 1) ''early'' False PNone, status_msg False] initial_state
   \<and> renders (outputs en_config feed_rejected initial_state) = []"
  using phrases_only_while_active[of "phrase_dict (PInt 1) ''early'' False PNone" initial_state
      en_config "[phrase_msg (PInt 1) ''early'' False PNone]"
      "[''type'' \<mapsto> PStr ''status'', ''success'' \<mapsto> PBool False]"
      "[phrase_msg (PInt 1) ''early'' False PNone]" "[phrase_msg (PInt 2) ''late'' True PNone]"]
  by (simp add: eval_defs feed_rejected_def)

text \<open>
  C6.  A phrase message whose \<^verbatim>\<open>translatedLanguageCode\<close> is not the target language
  (or is missing) writes no render command, only the raw packet log record, and leaves
  every variable as it was, in every state.
\<close>

theorem language_filter:
  assumes "dict_get d ''type'' PNone = PStr ''phrase''"
    and "dict_get d ''translatedLanguageCode'' PNone \<noteq> PStr (target_lang cfg)"
  shows "process_message cfg (Decoded (PDict d)) s = (Continue, raw_log cfg, s)
    \<and> renders (raw_log cfg) = []"
  using assms by (simp add: process_message_dict dispatch_phrase)

theorem language_filter_witness:
  "process_message en_config (Decoded (PDict spanish_dict)) open_partial
     = (Continue, [Log DEBUG], open_partial)"
  using language_filter[of spanish_dict en_config open_partial]
  by (simp add: spanish_dict_def dict_get_def raw_log_def logging_def en_config_def
      source_config_def)

subsection \<open>Speaker changes\<close>

lemma feed_speakers_run:
  "message_loop en_config feed_speakers initial_state =
     (Continue,
      [Log DEBUG, Log INFO, Banner ATTRIBUTION_LINE,
       Log DEBUG, Update (PInt 1) ''>> hi'',
       Log DEBUG, Println (PInt 1) ''>> hi'', Update (PInt 2) ''>> yo''],
      active_state\<lparr>current_phrase_id := PInt 2, current_phrase_text := ''>> yo'',
        finalized_phrases := {PInt 1}, last_speaker_id := PStr ''B''\<rparr>)"
  by (simp add: eval_defs feed_speakers_def)

text \<open>
  C7, as stated, fails on \<open>feed_speakers\<close>: speaker A is the first speaker of the
  session and says phrase 1, and the prefix of phrase 1 is the change marker.  The speaker
  memory starts as \<^verbatim>\<open>(None, None)\<close>, so the first speaker is a change.
\<close>

theorem first_speaker_counterexample:
  "renders (outputs en_config feed_speakers initial_state)
     = [Update (PInt 1) ''>> hi'', Println (PInt 1) ''>> hi'', Update (PInt 2) ''>> yo'']
   \<and> open_prefix en_config (read_phrase (phrase_dict (PInt 1) ''hi'' False (PStr ''A'')))
        active_state = ''>> ''"
  by (simp add: outputs_def feed_speakers_run renders_def) (simp add: eval_defs)

lemma new_phrase_memory:
  "last_speaker_id (snd (snd (new_phrase cfg e s))) = speaker_id e
   \<and> last_speaker_tag (snd (snd (new_phrase cfg e s))) = speaker_tag e"
  by (simp add: new_phrase_def Let_def split: option.splits)

lemma status_msg_step:
  "process_message cfg (status_msg True) s
     = (Continue, raw_log cfg @ logging cfg INFO @ [Banner ATTRIBUTION_LINE],
        s\<lparr>connection_successful := True\<rparr>)"
  by (simp add: status_msg_def process_message_dict dispatch_status dict_get_def)

lemma filter_update_logs [simp]:
  "filter is_update (raw_log cfg) = []" "filter is_update (logging cfg l) = []"
  by (simp_all add: raw_log_def logging_def)

text \<open>
  The updates written when a phrase opens in an active session with an empty buffer,
  and when it opens over another open or just finalized phrase.
\<close>

lemma open_prefix_memory:
  "open_prefix cfg e s =
     (if \<not> py_eq (speaker_id e) (last_speaker_id s) \<or> \<not> py_eq (speaker_tag e) (last_speaker_tag s)
      then change_prefix cfg (speaker_name e) else [])"
  by (simp add: open_prefix_def speaker_changed_def)

lemma opening_updates:
  assumes "dict_get d ''type'' PNone = PStr ''phrase''"
    "dict_get d ''translatedLanguageCode'' PNone = PStr (target_lang cfg)"
    "dict_get d ''phraseld'' PNone = p" "hashable p" "p \<noteq> PNone"
    "dict_get d ''translatedText'' (PStr []) = PStr t"
    "connection_successful s" "\<not> py_eq p (current_phrase_id s)"
    "\<not> py_in p (finalized_phrases s)"
    "process_message cfg (Decoded (PDict d)) s = (c, outs, s')"
  shows "c = Continue
    \<and> filter is_update outs = [Update p (open_prefix cfg (read_phrase d) s @ t)]
    \<and> last_speaker_id s' = dict_get d ''speakerld'' PNone
    \<and> last_speaker_tag s' = dict_get d ''speakerTag'' PNone
    \<and> connection_successful s'
    \<and> (current_phrase_id s' = PNone \<or> current_phrase_id s' = p)
    \<and> (\<forall>q. py_in q (finalized_phrases s') \<longrightarrow>
          py_same q p \<or> py_same q (current_phrase_id s) \<or> py_in q (finalized_phrases s))"
  using assms
  by (auto simp: process_message_dict dispatch_phrase handle_phrase_def new_phrase_def
      final_phrase_def read_phrase_def Let_def py_in_set_add open_prefix_memory split: if_splits)

lemma change_prefix_marker: "SHOW_SPEAKER_CHANGES cfg \<Longrightarrow> take 3 (change_prefix cfg n) = ''>> ''"
  by (simp add: change_prefix_def)

text \<open>
  C7, amended.  With the change markers on, a session opens phrase \<open>p1\<close> of one speaker
  and then phrase \<open>p2\<close>, another identifier, of another speaker (one whose identifier
  or tag is \<^verbatim>\<open>!=\<close> to the first one's).  The update that opens \<open>p2\<close> carries the
  change prefix, which starts with the marker, before its text.  The update that opens
  \<open>p1\<close> carries the change prefix too, unless the message gives neither a speaker
  identifier nor a speaker tag: the speaker memory starts as \<^verbatim>\<open>(None, None)\<close>.  Every
  pass through the new-phrase branch assigns the speaker identifier and tag of its
  message to the speaker memory.
\<close>

theorem speaker_change_marker:
  assumes mark: "SHOW_SPEAKER_CHANGES cfg"
    and d1: "dict_get d1 ''type'' PNone = PStr ''phrase''"
      "dict_get d1 ''translatedLanguageCode'' PNone = PStr (target_lang cfg)"
    and d2: "dict_get d2 ''type'' PNone = PStr ''phrase''"
      "dict_get d2 ''translatedLanguageCode'' PNone = PStr (target_lang cfg)"
    and p1: "dict_get d1 ''phraseld'' PNone = p1" "hashable p1" "p1 \<noteq> PNone"
    and p2: "dict_get d2 ''phraseld'' PNone = p2" "hashable p2" "p2 \<noteq> PNone" "\<not> py_same p2 p1"
    and t1: "dict_get d1 ''translatedText'' (PStr []) = PStr t1"
    and t2: "dict_get d2 ''translatedText'' (PStr []) = PStr t2"
    and differ: "\<not> py_eq (dict_get d2 ''speakerld'' PNone) (dict_get d1 ''speakerld'' PNone)
      \<or> \<not> py_eq (dict_get d2 ''speakerTag'' PNone) (dict_get d1 ''speakerTag'' PNone)"
  shows "filter is_update
      (outputs cfg [status_msg True, Decoded (PDict d1), Decoded (PDict d2)] initial_state)
     = [Update p1
          ((if dict_get d1 ''speakerld'' PNone = PNone \<and> dict_get d1 ''speakerTag'' PNone = PNone
            then [] else change_prefix cfg (dict_get d1 ''name'' PNone)) @ t1),
        Update p2 (change_prefix cfg (dict_get d2 ''name'' PNone) @ t2)]
    \<and> take 3 (change_prefix cfg n) = ''>> ''
    \<and> last_speaker_id (snd (snd (new_phrase cfg e s))) = speaker_id e
    \<and> last_speaker_tag (snd (snd (new_phrase cfg e s))) = speaker_tag e"
proof -
  let ?s0 = "initial_state\<lparr>connection_successful := True\<rparr>"
  obtain c1 o1 s1 where step1: "process_message cfg (Decoded (PDict d1)) ?s0 = (c1, o1, s1)"
    by (cases "process_message cfg (Decoded (PDict d1)) ?s0") auto
  have s0: "connection_successful ?s0" "\<not> py_eq p1 (current_phrase_id ?s0)"
    "\<not> py_in p1 (finalized_phrases ?s0)"
    using p1 by (simp_all add: initial_state_def py_in_def)
  note r1 = opening_updates[OF d1 p1 t1 s0 step1]
  have pre1: "open_prefix cfg (read_phrase d1) ?s0
      = (if dict_get d1 ''speakerld'' PNone = PNone \<and> dict_get d1 ''speakerTag'' PNone = PNone
         then [] else change_prefix cfg (dict_get d1 ''name'' PNone))"
    by (simp add: open_prefix_memory initial_state_def read_phrase_def)
  obtain c2 o2 s2 where step2: "process_message cfg (Decoded (PDict d2)) s1 = (c2, o2, s2)"
    by (cases "process_message cfg (Decoded (PDict d2)) s1") auto
  have s1: "connection_successful s1" "\<not> py_eq p2 (current_phrase_id s1)"
    "\<not> py_in p2 (finalized_phrases s1)"
    using r1 p2 py_eq_imp_same[of p2 p1] by (auto simp: initial_state_def py_in_def)
  note r2 = opening_updates[OF d2 p2(1-3) t2 s1 step2]
  have pre2: "open_prefix cfg (read_phrase d2) s1 = change_prefix cfg (dict_get d2 ''name'' PNone)"
    using r1 differ by (auto simp: open_prefix_memory read_phrase_def)
  have "outputs cfg [status_msg True, Decoded (PDict d1), Decoded (PDict d2)] initial_state
      = (raw_log cfg @ logging cfg INFO @ [Banner ATTRIBUTION_LINE]) @ o1 @ o2"
    using step1 step2 r1 r2 by (simp add: outputs_def status_msg_step)
  then have "filter is_update
      (outputs cfg [status_msg True, Decoded (PDict d1), Decoded (PDict d2)] initial_state)
     = [Update p1 (open_prefix cfg (read_phrase d1) ?s0 @ t1),
        Update p2 (open_prefix cfg (read_phrase d2) s1 @ t2)]"
    using r1 r2 by simp
  then show ?thesis
    using pre1 pre2 change_prefix_marker[OF mark] new_phrase_memory by simp
qed

theorem speaker_change_marker_witness:
  "filter is_update (outputs en_config feed_speakers initial_state)
     = [Update (PInt 1) ''>> hi'', Update (PInt 2) ''>> yo'']
   \<and> last_speaker_id (snd (snd (new_phrase en_config
        (read_phrase (phrase_dict (PInt 2) ''yo'' False (PStr ''B''))) open_partial))) = PStr ''B''"
  using speaker_change_marker[of en_config "phrase_dict (PInt 1) ''hi'' False (PStr ''A'')"
      "phrase_dict (PInt 2) ''yo'' False (PStr ''B'')" "PInt 1" "PInt 2" "''hi''" "''yo''" PNone
      "read_phrase (phrase_dict (PInt 2) ''yo'' False (PStr ''B''))" open_partial]
  by (simp add: outputs_def feed_speakers_run) (simp add: eval_defs)

subsection \<open>The attribution line\<close>

lemma feed_two_status_run:
  "message_loop en_config feed_two_status initial_state =
     (Continue,
      [Log DEBUG, Log INFO, Banner ATTRIBUTION_LINE, Log DEBUG, Log INFO, Banner ATTRIBUTION_LINE],
      active_state)"
  by (simp add: eval_defs feed_two_status_def)

text \<open>
  C8.  On \<open>feed_two_status\<close> the status message with a true \<^verbatim>\<open>success\<close> arrives
  twice, and line 105 prints the attribution line twice: nothing records that it has
  been printed.
\<close>

theorem attribution_printed_per_status:
  "filter is_banner (outputs en_config feed_two_status initial_state)
     = [Banner ATTRIBUTION_LINE, Banner ATTRIBUTION_LINE]"
  by (simp add: outputs_def feed_two_status_run)

subsection \<open>Malformed messages\<close>

text \<open>
  C9, as stated, fails.  A phrase message without \<^verbatim>\<open>phraseld\<close> is read with the
  identifier \<^verbatim>\<open>None\<close>: with an empty buffer it is taken for an update of the open
  phrase and rendered; with phrase 1 open it rolls phrase 1 over.  A phrase message
  without \<^verbatim>\<open>translatedText\<close> is read with the empty text and opens its phrase.  None
  of them logs a warning.
\<close>

theorem missing_field_counterexample:
  "process_message en_config (Decoded (PDict no_id_dict)) active_state
     = (Continue, [Log DEBUG, Update PNone ''hi''],
        active_state\<lparr>current_phrase_text := ''hi''\<rparr>)
   \<and> process_message en_config (Decoded (PDict no_id_dict)) open_partial
     = (Continue, [Log DEBUG, Println (PInt 1) ''partial'', Update PNone ''hi''],
        active_state\<lparr>current_phrase_text := ''hi'', finalized_phrases := {PInt 1}\<rparr>)
   \<and> process_message en_config (Decoded (PDict no_text_dict)) active_state
     = (Continue, [Log DEBUG, Update (PInt 5) []],
        active_state\<lparr>current_phrase_id := PInt 5\<rparr>)"
  by (simp add: eval_defs)

lemma phrase_continues:
  assumes "dict_get d ''type'' PNone = PStr ''phrase''"
  shows "fst (process_message cfg (Decoded (PDict d)) s) = Continue"
  using assms
  by (simp add: process_message_dict dispatch_phrase split: prod.splits option.splits)

lemma unhashable_phrase_noop:
  assumes "dict_get d ''type'' PNone = PStr ''phrase''" "connection_successful s"
    "dict_get d ''translatedLanguageCode'' PNone = PStr (target_lang cfg)"
    "\<not> hashable (dict_get d ''phraseld'' PNone)"
  shows "process_message cfg (Decoded (PDict d)) s = (Continue, raw_log cfg @ logging cfg ERROR, s)"
  using assms
  by (simp add: process_message_dict dispatch_phrase handle_phrase_def)

lemma not_dict_noop:
  assumes "\<forall>d. v \<noteq> PDict d"
  shows "process_message cfg (Decoded v) s = (Continue, raw_log cfg @ logging cfg ERROR, s)"
  using assms by (cases v) (simp_all add: process_message_def loop_body_def)

text \<open>
  A field that is absent is read as the default of its \<^verbatim>\<open>data.get\<close>, so the iteration
  is the one of the message that carries the default in that field.
\<close>

lemma dict_get_upd:
  "dict_get (d(k \<mapsto> v)) k' dflt = (if k' = k then v else dict_get d k' dflt)"
  by (simp add: dict_get_def)

lemma dict_get_absent: "d k = None \<Longrightarrow> dict_get d k dflt = dflt"
  by (simp add: dict_get_def)

lemma absent_text:
  assumes "d ''translatedText'' = None"
  shows "process_message cfg (Decoded (PDict (d(''translatedText'' \<mapsto> PStr [])))) s
    = process_message cfg (Decoded (PDict d)) s"
  using assms
  by (simp add: process_message_def loop_body_def dispatch_def read_phrase_def dict_get_upd
      dict_get_absent Let_def)

lemma absent_final:
  assumes "d ''isFinal'' = None"
  shows "process_message cfg (Decoded (PDict (d(''isFinal'' \<mapsto> PBool False)))) s
    = process_message cfg (Decoded (PDict d)) s"
  using assms
  by (simp add: process_message_def loop_body_def dispatch_def read_phrase_def dict_get_upd
      dict_get_absent Let_def)

lemma absent_id:
  assumes "d ''phraseld'' = None"
  shows "process_message cfg (Decoded (PDict (d(''phraseld'' \<mapsto> PNone)))) s
    = process_message cfg (Decoded (PDict d)) s"
  using assms
  by (simp add: process_message_def loop_body_def dispatch_def read_phrase_def dict_get_upd
      dict_get_absent Let_def)

text \<open>
  C9, amended.  The messages that are no-ops with a log record are those that raise
  before anything is written: a message that is not JSON (a warning), a message that
  \<^verbatim>\<open>json.loads\<close> fails on otherwise, a JSON value that is not an object, and a phrase
  message of an active session, in the target language, whose identifier is a list or
  an object (an error each).  They write no render
  command, change no variable and do not end the loop.  No phrase message ends the
  loop.  A phrase message that lacks \<^verbatim>\<open>translatedText\<close>, \<^verbatim>\<open>isFinal\<close> or
  \<^verbatim>\<open>phraseld\<close> is not among them: its iteration is the iteration of the same message
  with the empty text, with a false final flag, or with \<^verbatim>\<open>None\<close> for the identifier.
\<close>

theorem malformed_messages:
  "process_message cfg Undecodable s = (Continue, logging cfg WARNING, s)
   \<and> logging cfg WARNING = [Log WARNING]
   \<and> process_message cfg Unreadable s = (Continue, logging cfg ERROR, s)
   \<and> ((\<forall>d. v \<noteq> PDict d) \<longrightarrow>
        process_message cfg (Decoded v) s = (Continue, raw_log cfg @ logging cfg ERROR, s))
   \<and> (dict_get d ''type'' PNone = PStr ''phrase'' \<and> connection_successful s
        \<and> dict_get d ''translatedLanguageCode'' PNone = PStr (target_lang cfg)
        \<and> \<not> hashable (dict_get d ''phraseld'' PNone) \<longrightarrow>
        process_message cfg (Decoded (PDict d)) s = (Continue, raw_log cfg @ logging cfg ERROR, s))
   \<and> renders (raw_log cfg @ logging cfg ERROR) = []
   \<and> logging cfg ERROR = [Log ERROR]
   \<and> (dict_get d ''type'' PNone = PStr ''phrase'' \<longrightarrow>
        fst (process_message cfg (Decoded (PDict d)) s) = Continue)
   \<and> (d ''translatedText'' = None \<longrightarrow>
        process_message cfg (Decoded (PDict d)) s
          = process_message cfg (Decoded (PDict (d(''translatedText'' \<mapsto> PStr [])))) s)
   \<and> (d ''isFinal'' = None \<longrightarrow>
        process_message cfg (Decoded (PDict d)) s
          = process_message cfg (Decoded (PDict (d(''isFinal'' \<mapsto> PBool False)))) s)
   \<and> (d ''phraseld'' = None \<longrightarrow>
        process_message cfg (Decoded (PDict d)) s
          = process_message cfg (Decoded (PDict (d(''phraseld'' \<mapsto> PNone)))) s)"
proof -
  have a: "process_message cfg Undecodable s = (Continue, logging cfg WARNING, s)"
    "process_message cfg Unreadable s = (Continue, logging cfg ERROR, s)"
    by (simp_all add: process_message_def)
  have b: "logging cfg WARNING = [Log WARNING]" "logging cfg ERROR = [Log ERROR]"
    by (simp_all add: logging_def)
  have c: "renders (raw_log cfg @ logging cfg ERROR) = []"
    by simp
  show ?thesis
    using a b c not_dict_noop[of v cfg s] unhashable_phrase_noop[of d s cfg]
      phrase_continues[of d cfg s] absent_text[of d cfg s] absent_final[of d cfg s]
      absent_id[of d cfg s]
    by presburger
qed

text \<open>
  A message that is not JSON, a JSON list, and a phrase whose identifier is a list, each
  with phrase 1 open; and the phrase without text, handled as the phrase with the empty
  text.
\<close>

theorem malformed_messages_witness:
  "process_message en_config Undecodable open_partial = (Continue, [Log WARNING], open_partial)
   \<and> process_message en_config (Decoded (PList [PInt 1])) open_partial
       = (Continue, [Log DEBUG, Log ERROR], open_partial)
   \<and> process_message en_config (Decoded (PDict list_id_dict)) open_partial
       = (Continue, [Log DEBUG, Log ERROR], open_partial)
   \<and> fst (process_message en_config (Decoded (PDict list_id_dict)) open_partial) = Continue
   \<and> process_message en_config (Decoded (PDict no_text_dict)) active_state
       = process_message en_config
           (Decoded (PDict (no_text_dict(''translatedText'' \<mapsto> PStr [])))) active_state
   \<and> process_message en_config (Decoded (PDict no_text_dict)) active_state
       = process_message en_config
           (Decoded (PDict (no_text_dict(''isFinal'' \<mapsto> PBool False)))) active_state
   \<and> process_message en_config (Decoded (PDict no_id_dict)) active_state
       = process_message en_config
           (Decoded (PDict (no_id_dict(''phraseld'' \<mapsto> PNone)))) active_state"
proof -
  have h: "\<forall>d. PList [PInt 1] \<noteq> PDict d"
    "dict_get list_id_dict ''type'' PNone = PStr ''phrase''"
    "connection_successful open_partial"
    "dict_get list_id_dict ''translatedLanguageCode'' PNone = PStr (target_lang en_config)"
    "\<not> hashable (dict_get list_id_dict ''phraseld'' PNone)"
    "no_text_dict ''translatedText'' = None" "no_text_dict ''isFinal'' = None"
    "no_id_dict ''phraseld'' = None"
    by (simp_all add: list_id_dict_def no_text_dict_def no_id_dict_def dict_get_def
        open_partial_def active_state_def en_config_def source_config_def)
  have l: "logging en_config WARNING = [Log WARNING]"
    "raw_log en_config @ logging en_config ERROR = [Log DEBUG, Log ERROR]"
    by (simp_all add: logging_def raw_log_def en_config_def source_config_def)
  note m1 = malformed_messages[of en_config open_partial "PList [PInt 1]" list_id_dict]
  note m2 = malformed_messages[of en_config active_state "PList [PInt 1]" no_text_dict]
  note m3 = malformed_messages[of en_config active_state "PList [PInt 1]" no_id_dict]
  have a: "process_message en_config Undecodable open_partial
      = (Continue, [Log WARNING], open_partial)"
    "process_message en_config (Decoded (PList [PInt 1])) open_partial
      = (Continue, [Log DEBUG, Log ERROR], open_partial)"
    "process_message en_config (Decoded (PDict list_id_dict)) open_partial
      = (Continue, [Log DEBUG, Log ERROR], open_partial)"
    "fst (process_message en_config (Decoded (PDict list_id_dict)) open_partial) = Continue"
    using m1 h(1-5) l by simp_all
  have b: "process_message en_config (Decoded (PDict no_text_dict)) active_state
       = process_message en_config
           (Decoded (PDict (no_text_dict(''translatedText'' \<mapsto> PStr [])))) active_state"
    using m2 h(6) by blast
  have c: "process_message en_config (Decoded (PDict no_text_dict)) active_state
       = process_message en_config
           (Decoded (PDict (no_text_dict(''isFinal'' \<mapsto> PBool False)))) active_state"
    using m2 h(7) by blast
  have d: "process_message en_config (Decoded (PDict no_id_dict)) active_state
       = process_message en_config
           (Decoded (PDict (no_id_dict(''phraseld'' \<mapsto> PNone)))) active_state"
    using m3 h(8) by blast
  show ?thesis
    using a b c d by blast
qed

end
